theory Spec2Isabelle
  imports Complex_Main "HOL-Library.List_Lexorder" "HOL-Library.Char_ord"
begin

section \<open>Errors\<close>

text \<open>
  The exceptions that \<^verbatim>\<open>cam_taylor_diagram.py\<close> raises itself or receives from
  Python, numpy and xarray. A raise is the \<open>Inl\<close> branch of a result; the string is
  the exception's message.
\<close>

datatype error =
    IOError string
  | NotImplementedError string
  | ValueError string
  | KeyError string
  | IndexError string
  | ZeroDivisionError string

definition ebind :: "error + 'a \<Rightarrow> ('a \<Rightarrow> error + 'b) \<Rightarrow> error + 'b" where
  "ebind m f = (case m of Inl e \<Rightarrow> Inl e | Inr v \<Rightarrow> f v)"

section \<open>Numbers\<close>

text \<open>
  A cell of a field is a float. The model keeps the special values of IEEE arithmetic
  (the missing-value sentinel NaN and the two infinities) and computes on the finite ones
  with exact reals: rounding, overflow and the sign of zero are not modelled.
\<close>

datatype fval = Fin real | PInf | NInf | NaN

fun fneg :: "fval \<Rightarrow> fval" where
  "fneg (Fin a) = Fin (- a)"
| "fneg PInf = NInf"
| "fneg NInf = PInf"
| "fneg NaN = NaN"

fun fadd :: "fval \<Rightarrow> fval \<Rightarrow> fval" where
  "fadd (Fin a) (Fin b) = Fin (a + b)"
| "fadd NaN _ = NaN"
| "fadd _ NaN = NaN"
| "fadd PInf NInf = NaN"
| "fadd NInf PInf = NaN"
| "fadd PInf _ = PInf"
| "fadd _ PInf = PInf"
| "fadd NInf _ = NInf"
| "fadd _ NInf = NInf"

definition fsub :: "fval \<Rightarrow> fval \<Rightarrow> fval" where
  "fsub a b = fadd a (fneg b)"

definition signed_inf :: "bool \<Rightarrow> fval" where
  "signed_inf positive = (if positive then PInf else NInf)"

fun fmul :: "fval \<Rightarrow> fval \<Rightarrow> fval" where
  "fmul (Fin a) (Fin b) = Fin (a * b)"
| "fmul NaN _ = NaN"
| "fmul _ NaN = NaN"
| "fmul (Fin a) PInf = (if a = 0 then NaN else signed_inf (0 < a))"
| "fmul (Fin a) NInf = (if a = 0 then NaN else signed_inf (a < 0))"
| "fmul PInf (Fin b) = (if b = 0 then NaN else signed_inf (0 < b))"
| "fmul NInf (Fin b) = (if b = 0 then NaN else signed_inf (b < 0))"
| "fmul PInf PInf = PInf"
| "fmul NInf NInf = PInf"
| "fmul PInf NInf = NInf"
| "fmul NInf PInf = NInf"

fun fdiv :: "fval \<Rightarrow> fval \<Rightarrow> fval" where
  "fdiv (Fin a) (Fin b) =
     (if b \<noteq> 0 then Fin (a / b) else if a = 0 then NaN else signed_inf (0 < a))"
| "fdiv NaN _ = NaN"
| "fdiv _ NaN = NaN"
| "fdiv (Fin a) PInf = Fin 0"
| "fdiv (Fin a) NInf = Fin 0"
| "fdiv PInf (Fin b) = signed_inf (0 \<le> b)"
| "fdiv NInf (Fin b) = signed_inf (b < 0)"
| "fdiv PInf PInf = NaN"
| "fdiv PInf NInf = NaN"
| "fdiv NInf PInf = NaN"
| "fdiv NInf NInf = NaN"

fun fsqrt :: "fval \<Rightarrow> fval" where
  "fsqrt (Fin a) = (if 0 \<le> a then Fin (sqrt a) else NaN)"
| "fsqrt PInf = PInf"
| "fsqrt NInf = NaN"
| "fsqrt NaN = NaN"

text \<open>\<^verbatim>\<open>np.radians\<close> and \<^verbatim>\<open>np.cos\<close>; both give NaN outside the finite numbers.\<close>

fun np_radians :: "fval \<Rightarrow> fval" where
  "np_radians (Fin a) = Fin (a * pi / 180)"
| "np_radians PInf = PInf"
| "np_radians NInf = NInf"
| "np_radians NaN = NaN"

fun np_cos :: "fval \<Rightarrow> fval" where
  "np_cos (Fin a) = Fin (cos a)"
| "np_cos _ = NaN"

definition fsum :: "fval list \<Rightarrow> fval" where
  "fsum vs = foldr fadd vs (Fin 0)"

text \<open>
  Python's own float division, used on the two standard deviations after \<^verbatim>\<open>.item()\<close>:
  unlike numpy's it raises on a zero divisor.
\<close>

definition py_truediv :: "fval \<Rightarrow> fval \<Rightarrow> error + fval" where
  "py_truediv a b =
     (if b = Fin 0 then Inl (ZeroDivisionError ''float division by zero'') else Inr (fdiv a b))"

section \<open>Labelled arrays\<close>

text \<open>
  An xarray \<^verbatim>\<open>DataArray\<close>: its dimensions in axis order, each with its coordinate
  labels, and the value of every cell. A cell is addressed by the labels of its
  dimensions (an assignment of a label to each dimension name), which is how xarray
  aligns and broadcasts operands: by name and label, never by position.
\<close>

type_synonym env = "string \<Rightarrow> real"

record dataarray =
  coords :: "(string \<times> real list) list"
  vals :: "env \<Rightarrow> fval"

type_synonym dataset = "(string \<times> dataarray) list"

definition dims :: "dataarray \<Rightarrow> string list" where
  "dims x = map fst (coords x)"

text \<open>The cells of an array with the given coordinates, in row-major order.\<close>

fun envs :: "(string \<times> real list) list \<Rightarrow> env list" where
  "envs [] = [\<lambda>_. 0]"
| "envs (c # cs) = concat (map (\<lambda>l. map (\<lambda>e. e(fst c := l)) (envs cs)) (snd c))"

definition cells :: "dataarray \<Rightarrow> env list" where
  "cells x = envs (coords x)"

definition scalar :: "fval \<Rightarrow> dataarray" where
  "scalar v = \<lparr>coords = [], vals = \<lambda>_. v\<rparr>"

definition xr_map :: "(fval \<Rightarrow> fval) \<Rightarrow> dataarray \<Rightarrow> dataarray" where
  "xr_map f x = \<lparr>coords = coords x, vals = \<lambda>e. f (vals x e)\<rparr>"

text \<open>
  Binary arithmetic aligns the operands with an inner join on the labels of every shared
  dimension and broadcasts over the others; the result has the left operand's
  dimensions first.
\<close>

definition join_coords ::
  "(string \<times> real list) list \<Rightarrow> (string \<times> real list) list \<Rightarrow> (string \<times> real list) list" where
  "join_coords cx cy =
     map (\<lambda>c. case map_of cy (fst c) of
                 None \<Rightarrow> c
               | Some ls \<Rightarrow> (fst c, filter (\<lambda>l. l \<in> set ls) (snd c))) cx
     @ filter (\<lambda>c. fst c \<notin> set (map fst cx)) cy"

definition xr_binop :: "(fval \<Rightarrow> fval \<Rightarrow> fval) \<Rightarrow> dataarray \<Rightarrow> dataarray \<Rightarrow> dataarray" where
  "xr_binop f x y =
     \<lparr>coords = join_coords (coords x) (coords y), vals = \<lambda>e. f (vals x e) (vals y e)\<rparr>"

text \<open>\<^verbatim>\<open>x[name]\<close> for a coordinate of \<open>x\<close>, and \<^verbatim>\<open>ds[name]\<close> for a dataset.\<close>

definition coord_array :: "dataarray \<Rightarrow> string \<Rightarrow> error + dataarray" where
  "coord_array x d =
     (case map_of (coords x) d of
        None \<Rightarrow> Inl (KeyError d)
      | Some ls \<Rightarrow> Inr \<lparr>coords = [(d, ls)], vals = \<lambda>e. Fin (e d)\<rparr>)"

definition getitem :: "dataset \<Rightarrow> string \<Rightarrow> error + dataarray" where
  "getitem ds name = (case map_of ds name of None \<Rightarrow> Inl (KeyError name) | Some a \<Rightarrow> Inr a)"

text \<open>\<^verbatim>\<open>.item()\<close>: the value of an array of exactly one cell.\<close>

definition item :: "dataarray \<Rightarrow> error + fval" where
  "item x =
     (case cells x of
        [e] \<Rightarrow> Inr (vals x e)
      | _ \<Rightarrow> Inl (ValueError ''can only convert an array of size 1 to a Python scalar''))"

text \<open>
  \<^verbatim>\<open>x.sel(dim=labels)\<close> with a list of labels: the listed labels become the
  coordinate, in the order given; a label the index does not hold is a KeyError.
\<close>

definition xr_sel :: "dataarray \<Rightarrow> string \<Rightarrow> real list \<Rightarrow> error + dataarray" where
  "xr_sel x d labels =
     (case map_of (coords x) d of
        None \<Rightarrow> Inl (KeyError d)
      | Some ls \<Rightarrow>
          if list_ex (\<lambda>l. l \<notin> set ls) labels then Inl (KeyError d)
          else Inr \<lparr>coords = map (\<lambda>c. if fst c = d then (d, labels) else c) (coords x),
                    vals = vals x\<rparr>)"

text \<open>
  \<^verbatim>\<open>x.mean(dim=d)\<close>: the mean along one dimension, over the cells that are not NaN
  (xarray skips missing values of a float array by default).
\<close>

definition nanmean :: "fval list \<Rightarrow> fval" where
  "nanmean vs =
     (let present = filter (\<lambda>v. v \<noteq> NaN) vs
      in fdiv (fsum present) (Fin (real (length present))))"

definition xr_mean_dim :: "dataarray \<Rightarrow> string \<Rightarrow> error + dataarray" where
  "xr_mean_dim x d =
     (case map_of (coords x) d of
        None \<Rightarrow> Inl (ValueError (d @ '' not found in array dimensions''))
      | Some ls \<Rightarrow>
          Inr \<lparr>coords = filter (\<lambda>c. fst c \<noteq> d) (coords x),
                vals = \<lambda>e. nanmean (map (\<lambda>l. vals x (e(d := l))) ls)\<rparr>)"

text \<open>\<^verbatim>\<open>x.squeeze(drop=True)\<close>: every dimension of length one is dropped.\<close>

definition squeeze :: "dataarray \<Rightarrow> dataarray" where
  "squeeze x =
     \<lparr>coords = filter (\<lambda>c. length (snd c) \<noteq> 1) (coords x),
      vals = \<lambda>e. vals x
        (fold (\<lambda>c e'. if length (snd c) = 1 then e'(fst c := hd (snd c)) else e') (coords x) e)\<rparr>"

subsection \<open>Weighted reductions\<close>

text \<open>
  \<^verbatim>\<open>x.weighted(weights)\<close> and its reductions over all dimensions, as xarray's
  \<^verbatim>\<open>DataArrayWeighted\<close> computes them. The constructor accepts only a
  \<^verbatim>\<open>DataArray\<close> without missing values. A reduction replaces the missing cells of
  the data by zero before the dot product with the weights, and the mean divides by the
  sum of the weights of the cells that are present, which is NaN when that sum is zero.
\<close>

datatype weights = DataArrayW dataarray | NdArrayW "real list"

definition xr_weighted :: "weights \<Rightarrow> error + dataarray" where
  "xr_weighted w =
     (case w of
        NdArrayW _ \<Rightarrow> Inl (ValueError ''`weights` must be a DataArray'')
      | DataArrayW wd \<Rightarrow>
          if list_ex (\<lambda>e. vals wd e = NaN) (cells wd)
          then Inl (ValueError ''`weights` cannot contain missing values.'')
          else Inr wd)"

definition fillna0 :: "fval \<Rightarrow> fval" where
  "fillna0 v = (if v = NaN then Fin 0 else v)"

definition notnull :: "fval \<Rightarrow> fval" where
  "notnull v = (if v = NaN then Fin 0 else Fin 1)"

definition xr_dot :: "dataarray \<Rightarrow> dataarray \<Rightarrow> dataarray" where
  "xr_dot a b =
     scalar (fsum (map (\<lambda>e. fmul (vals a e) (vals b e)) (envs (join_coords (coords a) (coords b)))))"

definition xr_reduce :: "dataarray \<Rightarrow> dataarray \<Rightarrow> bool \<Rightarrow> dataarray" where
  "xr_reduce da w skipna = xr_dot (if skipna then xr_map fillna0 da else da) w"

definition xr_sum_of_weights :: "dataarray \<Rightarrow> dataarray \<Rightarrow> dataarray" where
  "xr_sum_of_weights da w =
     xr_map (\<lambda>s. if s \<noteq> Fin 0 then s else NaN) (xr_reduce (xr_map notnull da) w False)"

definition xr_weighted_mean :: "dataarray \<Rightarrow> dataarray \<Rightarrow> dataarray" where
  "xr_weighted_mean da w = xr_binop fdiv (xr_reduce da w True) (xr_sum_of_weights da w)"

definition xr_sum_of_squares :: "dataarray \<Rightarrow> dataarray \<Rightarrow> dataarray" where
  "xr_sum_of_squares da w =
     (let demeaned = xr_binop fsub da (xr_weighted_mean da w)
      in xr_reduce (xr_map (\<lambda>v. fmul v v) demeaned) w True)"

definition xr_weighted_var :: "dataarray \<Rightarrow> dataarray \<Rightarrow> dataarray" where
  "xr_weighted_var da w = xr_binop fdiv (xr_sum_of_squares da w) (xr_sum_of_weights da w)"

definition xr_weighted_std :: "dataarray \<Rightarrow> dataarray \<Rightarrow> dataarray" where
  "xr_weighted_std da w = xr_map fsqrt (xr_weighted_var da w)"

text \<open>\<^verbatim>\<open>x.weighted(weights).mean()\<close> and \<^verbatim>\<open>x.weighted(weights).std()\<close>.\<close>

definition weighted_mean :: "dataarray \<Rightarrow> weights \<Rightarrow> error + dataarray" where
  "weighted_mean x weights = ebind (xr_weighted weights) (\<lambda>w. Inr (xr_weighted_mean x w))"

definition weighted_std :: "dataarray \<Rightarrow> weights \<Rightarrow> error + dataarray" where
  "weighted_std x weights = ebind (xr_weighted weights) (\<lambda>w. Inr (xr_weighted_std x w))"

section \<open>Taylor statistics\<close>

definition weighted_correlation :: "dataarray \<Rightarrow> dataarray \<Rightarrow> weights \<Rightarrow> error + dataarray" where
  "weighted_correlation x y weights =
     ebind (weighted_mean x weights) (\<lambda>mean_x.
     ebind (weighted_mean y weights) (\<lambda>mean_y.
     (let dev_x = xr_binop fsub x mean_x;
          dev_y = xr_binop fsub y mean_y in
      ebind (weighted_mean (xr_binop fmul dev_x dev_y) weights) (\<lambda>cov_xy.
      ebind (weighted_mean (xr_binop fmul dev_x dev_x) weights) (\<lambda>cov_xx.
      ebind (weighted_mean (xr_binop fmul dev_y dev_y) weights) (\<lambda>cov_yy.
      Inr (xr_binop fdiv cov_xy (xr_map fsqrt (xr_binop fmul cov_xx cov_yy)))))))))"

text \<open>
  The body of \<^verbatim>\<open>taylor_stats_single\<close> once the weight \<open>wgt\<close> is chosen, and the
  function itself, which takes the weight from the latitudes of the case field.
\<close>

definition taylor_stats_wgt ::
  "dataarray \<Rightarrow> dataarray \<Rightarrow> weights \<Rightarrow> error + fval \<times> fval \<times> fval" where
  "taylor_stats_wgt casedata refdata wgt =
     ebind (weighted_correlation casedata refdata wgt) (\<lambda>c.
     ebind (item c) (\<lambda>correlation.
     ebind (weighted_std casedata wgt) (\<lambda>sa.
     ebind (item sa) (\<lambda>a_sigma.
     ebind (weighted_std refdata wgt) (\<lambda>sb.
     ebind (item sb) (\<lambda>b_sigma.
     ebind (weighted_mean casedata wgt) (\<lambda>mean_case.
     ebind (weighted_mean refdata wgt) (\<lambda>mean_ref.
     ebind (item (xr_map (fmul (Fin 100))
                    (xr_binop fdiv (xr_binop fsub mean_case mean_ref) mean_ref))) (\<lambda>bias.
     ebind (py_truediv a_sigma b_sigma) (\<lambda>ratio.
     Inr (correlation, ratio, bias)))))))))))"

definition taylor_stats_single ::
  "dataarray \<Rightarrow> dataarray \<Rightarrow> bool \<Rightarrow> error + fval \<times> fval \<times> fval" where
  "taylor_stats_single casedata refdata w =
     ebind (coord_array casedata ''lat'') (\<lambda>lat.
     (let wgt = (if w then DataArrayW (xr_map np_cos (xr_map np_radians lat))
                 else NdArrayW (replicate (length (cells lat)) 1))
      in taylor_stats_wgt casedata refdata wgt))"

section \<open>The statistics under a rounding arithmetic\<close>

text \<open>
  The program computes in binary64, where every operation rounds its result and may
  overflow, and where the library chooses the order in which a sum is taken. The
  weighted reductions and the Taylor statistics are given here a second time, word for
  word, with the arithmetic as a parameter: the difference, the product, the quotient,
  the square root, the cosine, the conversion to radians and the sum of a list of terms. A property proved
  from laws that binary64 obeys then holds of the program's own arithmetic; \<open>exact\<close>
  is the arithmetic without rounding of the sections above.
\<close>

record arith =
  ar_sub :: "fval \<Rightarrow> fval \<Rightarrow> fval"
  ar_mul :: "fval \<Rightarrow> fval \<Rightarrow> fval"
  ar_div :: "fval \<Rightarrow> fval \<Rightarrow> fval"
  ar_sqrt :: "fval \<Rightarrow> fval"
  ar_cos :: "fval \<Rightarrow> fval"
  ar_radians :: "fval \<Rightarrow> fval"
  ar_sum :: "fval list \<Rightarrow> fval"

definition exact :: arith where
  "exact =
     \<lparr>ar_sub = fsub, ar_mul = fmul, ar_div = fdiv, ar_sqrt = fsqrt, ar_cos = np_cos,
      ar_radians = np_radians, ar_sum = fsum\<rparr>"

text \<open>
  Laws of binary64, up to the sign of zero: a product with zero and a difference or a
  quotient of a number with itself are exact, zero divided by zero is NaN, and NaN
  propagates through a difference, a product and a quotient. An arithmetic that rounds
  every result obeys them on all reals.
\<close>

definition ieee_laws :: "arith \<Rightarrow> bool" where
  "ieee_laws ar \<longleftrightarrow>
     (\<forall>a. ar_mul ar (Fin 0) (Fin a) = Fin 0)
     \<and> (\<forall>a. ar_mul ar (Fin a) (Fin 0) = Fin 0)
     \<and> (\<forall>v. ar_mul ar v NaN = NaN)
     \<and> (\<forall>v. ar_mul ar NaN v = NaN)
     \<and> (\<forall>v. ar_sub ar NaN v = NaN)
     \<and> (\<forall>a. ar_sub ar (Fin a) (Fin a) = Fin 0)
     \<and> (\<forall>a. ar_div ar (Fin 0) (Fin a) = (if a = 0 then NaN else Fin 0))
     \<and> (\<forall>a. a = 0 \<or> ar_div ar (Fin a) (Fin a) = Fin 1)
     \<and> (\<forall>v. ar_div ar v NaN = NaN)"

text \<open>A summation that ignores the terms that are zero, as an exact or a sequential one does.\<close>

definition zeros_drop :: "arith \<Rightarrow> bool" where
  "zeros_drop ar \<longleftrightarrow> (\<forall>vs. ar_sum ar vs = ar_sum ar (filter (\<lambda>v. v \<noteq> Fin 0) vs))"

definition xr_dot_ar :: "arith \<Rightarrow> dataarray \<Rightarrow> dataarray \<Rightarrow> dataarray" where
  "xr_dot_ar ar a b =
     scalar (ar_sum ar
       (map (\<lambda>e. ar_mul ar (vals a e) (vals b e)) (envs (join_coords (coords a) (coords b)))))"

definition xr_reduce_ar :: "arith \<Rightarrow> dataarray \<Rightarrow> dataarray \<Rightarrow> bool \<Rightarrow> dataarray" where
  "xr_reduce_ar ar da w skipna = xr_dot_ar ar (if skipna then xr_map fillna0 da else da) w"

definition xr_sum_of_weights_ar :: "arith \<Rightarrow> dataarray \<Rightarrow> dataarray \<Rightarrow> dataarray" where
  "xr_sum_of_weights_ar ar da w =
     xr_map (\<lambda>s. if s \<noteq> Fin 0 then s else NaN) (xr_reduce_ar ar (xr_map notnull da) w False)"

definition xr_weighted_mean_ar :: "arith \<Rightarrow> dataarray \<Rightarrow> dataarray \<Rightarrow> dataarray" where
  "xr_weighted_mean_ar ar da w =
     xr_binop (ar_div ar) (xr_reduce_ar ar da w True) (xr_sum_of_weights_ar ar da w)"

definition xr_sum_of_squares_ar :: "arith \<Rightarrow> dataarray \<Rightarrow> dataarray \<Rightarrow> dataarray" where
  "xr_sum_of_squares_ar ar da w =
     (let demeaned = xr_binop (ar_sub ar) da (xr_weighted_mean_ar ar da w)
      in xr_reduce_ar ar (xr_map (\<lambda>v. ar_mul ar v v) demeaned) w True)"

definition xr_weighted_var_ar :: "arith \<Rightarrow> dataarray \<Rightarrow> dataarray \<Rightarrow> dataarray" where
  "xr_weighted_var_ar ar da w =
     xr_binop (ar_div ar) (xr_sum_of_squares_ar ar da w) (xr_sum_of_weights_ar ar da w)"

definition xr_weighted_std_ar :: "arith \<Rightarrow> dataarray \<Rightarrow> dataarray \<Rightarrow> dataarray" where
  "xr_weighted_std_ar ar da w = xr_map (ar_sqrt ar) (xr_weighted_var_ar ar da w)"

definition weighted_mean_ar :: "arith \<Rightarrow> dataarray \<Rightarrow> weights \<Rightarrow> error + dataarray" where
  "weighted_mean_ar ar x weights =
     ebind (xr_weighted weights) (\<lambda>w. Inr (xr_weighted_mean_ar ar x w))"

definition weighted_std_ar :: "arith \<Rightarrow> dataarray \<Rightarrow> weights \<Rightarrow> error + dataarray" where
  "weighted_std_ar ar x weights =
     ebind (xr_weighted weights) (\<lambda>w. Inr (xr_weighted_std_ar ar x w))"

definition weighted_correlation_ar ::
  "arith \<Rightarrow> dataarray \<Rightarrow> dataarray \<Rightarrow> weights \<Rightarrow> error + dataarray" where
  "weighted_correlation_ar ar x y weights =
     ebind (weighted_mean_ar ar x weights) (\<lambda>mean_x.
     ebind (weighted_mean_ar ar y weights) (\<lambda>mean_y.
     (let dev_x = xr_binop (ar_sub ar) x mean_x;
          dev_y = xr_binop (ar_sub ar) y mean_y in
      ebind (weighted_mean_ar ar (xr_binop (ar_mul ar) dev_x dev_y) weights) (\<lambda>cov_xy.
      ebind (weighted_mean_ar ar (xr_binop (ar_mul ar) dev_x dev_x) weights) (\<lambda>cov_xx.
      ebind (weighted_mean_ar ar (xr_binop (ar_mul ar) dev_y dev_y) weights) (\<lambda>cov_yy.
      Inr (xr_binop (ar_div ar) cov_xy
             (xr_map (ar_sqrt ar) (xr_binop (ar_mul ar) cov_xx cov_yy)))))))))"

definition py_truediv_ar :: "arith \<Rightarrow> fval \<Rightarrow> fval \<Rightarrow> error + fval" where
  "py_truediv_ar ar a b =
     (if b = Fin 0 then Inl (ZeroDivisionError ''float division by zero'')
      else Inr (ar_div ar a b))"

definition taylor_stats_wgt_ar ::
  "arith \<Rightarrow> dataarray \<Rightarrow> dataarray \<Rightarrow> weights \<Rightarrow> error + fval \<times> fval \<times> fval" where
  "taylor_stats_wgt_ar ar casedata refdata wgt =
     ebind (weighted_correlation_ar ar casedata refdata wgt) (\<lambda>c.
     ebind (item c) (\<lambda>correlation.
     ebind (weighted_std_ar ar casedata wgt) (\<lambda>sa.
     ebind (item sa) (\<lambda>a_sigma.
     ebind (weighted_std_ar ar refdata wgt) (\<lambda>sb.
     ebind (item sb) (\<lambda>b_sigma.
     ebind (weighted_mean_ar ar casedata wgt) (\<lambda>mean_case.
     ebind (weighted_mean_ar ar refdata wgt) (\<lambda>mean_ref.
     ebind (item (xr_map (ar_mul ar (Fin 100))
                    (xr_binop (ar_div ar) (xr_binop (ar_sub ar) mean_case mean_ref) mean_ref)))
       (\<lambda>bias.
     ebind (py_truediv_ar ar a_sigma b_sigma) (\<lambda>ratio.
     Inr (correlation, ratio, bias)))))))))))"

definition taylor_stats_single_ar ::
  "arith \<Rightarrow> dataarray \<Rightarrow> dataarray \<Rightarrow> bool \<Rightarrow> error + fval \<times> fval \<times> fval" where
  "taylor_stats_single_ar ar casedata refdata w =
     ebind (coord_array casedata ''lat'') (\<lambda>lat.
     (let wgt = (if w then DataArrayW (xr_map (ar_cos ar) (xr_map (ar_radians ar) lat))
                 else NdArrayW (replicate (length (cells lat)) 1))
      in taylor_stats_wgt_ar ar casedata refdata wgt))"

text \<open>
  An arithmetic with the range of binary64 and no rounding: a sum, a difference, a
  product or a quotient of magnitude \<open>2 ^ 1024\<close> or more is infinite, as it is in
  binary64, whose largest number is below \<open>2 ^ 1024\<close>. The square root, the cosine
  and the conversion to radians do not leave the range. Sums are taken term by term.
\<close>

definition clip :: "fval \<Rightarrow> fval" where
  "clip v = (case v of Fin r \<Rightarrow> if 2 ^ 1024 \<le> \<bar>r\<bar> then signed_inf (0 < r) else Fin r | _ \<Rightarrow> v)"

definition binary64_range :: arith where
  "binary64_range =
     \<lparr>ar_sub = (\<lambda>a b. clip (fsub a b)), ar_mul = (\<lambda>a b. clip (fmul a b)),
      ar_div = (\<lambda>a b. clip (fdiv a b)), ar_sqrt = fsqrt, ar_cos = np_cos,
      ar_radians = np_radians,
      ar_sum = (\<lambda>vs. foldr (\<lambda>a b. clip (fadd a b)) vs (Fin 0))\<rparr>"

section \<open>Vertical average of a column\<close>

text \<open>
  Modelled from the spec: \<^verbatim>\<open>pres_from_hybrid\<close> is imported from
  \<^verbatim>\<open>plotting_functions\<close>; the pressure of a level is \<open>hyam * P0 + hybm * PS\<close>,
  with the reference pressure \<open>p0\<close> a parameter.
\<close>

definition pres_from_hybrid :: "real \<Rightarrow> real \<Rightarrow> real list \<Rightarrow> real list \<Rightarrow> real list" where
  "pres_from_hybrid p0 ps hya hyb = map2 (\<lambda>a b. a * p0 + b * ps) hya hyb"

text \<open>\<^verbatim>\<open>np.trapz(y, x=x)\<close> along the vertical axis.\<close>

fun np_trapz :: "real list \<Rightarrow> real list \<Rightarrow> real" where
  "np_trapz (y0 # y1 # ys) (x0 # x1 # xs) =
     (x1 - x0) * (y0 + y1) / 2 + np_trapz (y1 # ys) (x1 # xs)"
| "np_trapz _ _ = 0"

text \<open>\<^verbatim>\<open>pres.sel(lev=l)\<close>: the pressure at the level labelled \<open>l\<close>.\<close>

definition sel_lev :: "real list \<Rightarrow> real list \<Rightarrow> real \<Rightarrow> error + real" where
  "sel_lev lev pres l =
     (case map_of (zip lev pres) l of None \<Rightarrow> Inl (KeyError ''lev'') | Some p \<Rightarrow> Inr p)"

text \<open>
  \<^verbatim>\<open>vertical_average\<close> on a field whose only dimension is \<open>lev\<close>: \<open>lev\<close> is
  the level coordinate that the field and the hybrid coefficients share, \<open>fld\<close> the
  field's values along it and \<open>ps\<close> the surface pressure of the column. Along
  further dimensions the program hands the pressure to \<^verbatim>\<open>np.trapz\<close> by position,
  with the axes that \<^verbatim>\<open>pres_from_hybrid\<close> gives it; such fields are not modelled.
  The arithmetic is exact, which is the program's arithmetic where every intermediate
  result is a binary64 number, as for the columns evaluated below. The column always has
  its level axis, so \<^verbatim>\<open>fld.dims.index('lev')\<close> and the assertion after it succeed;
  the maximum of an empty level coordinate raises.
\<close>

definition vertical_average ::
  "real \<Rightarrow> real list \<Rightarrow> real list \<Rightarrow> real \<Rightarrow> real list \<Rightarrow> real list \<Rightarrow> error + fval" where
  "vertical_average p0 lev fld ps acoef bcoef =
     (let pres = pres_from_hybrid p0 ps acoef bcoef in
      case lev of
        [] \<Rightarrow> Inl (ValueError ''zero-size array to reduction operation maximum which has no identity'')
      | l # ls \<Rightarrow>
          (let maxlev = fold max ls l;
               minlev = fold min ls l in
           ebind (sel_lev lev pres maxlev) (\<lambda>pmax.
           ebind (sel_lev lev pres minlev) (\<lambda>pmin.
           (let dp_integrated = 0.5 * (pmax ^ 2 - pmin ^ 2);
                fld_integrated = np_trapz (map2 (*) fld pres) pres
            in Inr (fdiv (Fin fld_integrated) (Fin dp_integrated)))))))"

section \<open>The climatology store\<close>

text \<open>
  What the module reads from disk: \<open>glob location pattern\<close> lists the files of a
  directory that match a pattern, \<open>open_dataset\<close> reads one file and
  \<open>open_mfdataset\<close> merges several.
\<close>

record store =
  glob :: "string \<Rightarrow> string \<Rightarrow> string list"
  open_dataset :: "string \<Rightarrow> dataset"
  open_mfdataset :: "string list \<Rightarrow> dataset"

text \<open>\<^verbatim>\<open>sorted(list(Path(location).glob(f"{casename}*_{VAR}_*.nc")))\<close>\<close>

definition find_files :: "store \<Rightarrow> string \<Rightarrow> string \<Rightarrow> string \<Rightarrow> string list" where
  "find_files st location casename var =
     sort (glob st location (casename @ ''*_'' @ var @ ''_*.nc''))"

text \<open>
  The configuration object the host framework passes in, with the entries the
  computation reads: the test cases and their climatology directories, and the
  reference, which is either the observations or a baseline case.
\<close>

record adf =
  cam_case_name :: "string list"
  cam_climo_loc :: "string list"
  compare_obs :: bool
  obs_climo_loc :: string
  baseline_case_name :: string
  baseline_climo_loc :: string

section \<open>Derived variables\<close>

definition get_prect :: "store \<Rightarrow> string \<Rightarrow> string \<Rightarrow> error + dataarray" where
  "get_prect st casename location =
     (let fils = find_files st location casename ''PRECT'' in
      if length fils = 0 then
        (let fils1 = find_files st location casename ''PRECC'';
             fils2 = find_files st location casename ''PRECL'' in
         if length fils1 = 0 \<or> length fils2 = 0 then
           Inl (IOError ''Could not find PRECC or PRECL'')
         else if length fils1 = 1 then
           ebind (getitem (open_dataset st (hd fils1)) ''PRECC'') (\<lambda>precc.
           ebind (getitem (open_dataset st (hd fils2)) ''PRECL'') (\<lambda>precl.
           Inr (xr_binop fadd precc precl)))
         else Inl (NotImplementedError ''Need to deal with mult-file case.''))
      else if 1 < length fils then getitem (open_mfdataset st fils) ''PRECT''
      else getitem (open_dataset st (hd fils)) ''PRECT'')"

text \<open>The registry of \<^verbatim>\<open>get_derive_func\<close>: the names and the procedure each selects.\<close>

datatype derive_func =
    Get_tropical_land_precip
  | Get_tropical_ocean_precip
  | Get_u_at_plev
  | Get_virh
  | Get_vit
  | Get_landt2m
  | Get_eqpactaux

definition funcs :: "(string \<times> derive_func) list" where
  "funcs =
     [(''TropicalLandPrecip'', Get_tropical_land_precip),
      (''TropicalOceanPrecip'', Get_tropical_ocean_precip),
      (''U300'', Get_u_at_plev),
      (''ColumnRelativeHumidity'', Get_virh),
      (''ColumnTemperature'', Get_vit),
      (''Land2mTemperature'', Get_landt2m),
      (''EquatorialPacificStress'', Get_eqpactaux)]"

definition get_derive_func :: "string \<Rightarrow> error + derive_func" where
  "get_derive_func fld =
     (case map_of funcs fld of
        None \<Rightarrow> Inl (ValueError (''We do not have a method for variable: '' @ fld @ ''.''))
      | Some f \<Rightarrow> Inr f)"

text \<open>
  What the retrieval uses from outside the module: geocat's
  \<^verbatim>\<open>interp_hybrid_to_pressure\<close> (data, surface pressure, hybrid coefficients, new
  levels, name of the level dimension), and the registry's procedures other than
  \<^verbatim>\<open>get_u_at_plev\<close>, which read masks and history files and are not needed by the
  properties proved here.
\<close>

record collaborators =
  interp_hybrid_to_pressure ::
    "dataarray \<Rightarrow> dataarray \<Rightarrow> dataarray \<Rightarrow> dataarray \<Rightarrow> real list \<Rightarrow> string
      \<Rightarrow> error + dataarray"
  procedure :: "derive_func \<Rightarrow> adf \<Rightarrow> string \<Rightarrow> string \<Rightarrow> error + dataarray"

text \<open>\<^verbatim>\<open>_retrieve\<close> returns a \<^verbatim>\<open>DataArray\<close> or, on request, a \<^verbatim>\<open>Dataset\<close>.\<close>

datatype retrieved = AsArray dataarray | AsDataset dataset

definition v_to_derive :: "string list" where
  "v_to_derive =
     [''TropicalLandPrecip'', ''TropicalOceanPrecip'', ''EquatorialPacificStress'',
      ''U300'', ''ColumnRelativeHumidity'', ''ColumnTemperature'', ''Land2mTemperature'']"

text \<open>
  \<^verbatim>\<open>_retrieve\<close>, \<^verbatim>\<open>get_var_at_plev\<close> and \<^verbatim>\<open>get_u_at_plev\<close> call each other:
  a derived name runs its procedure, and the procedure of \<^verbatim>\<open>U300\<close> retrieves the
  dataset of \<^verbatim>\<open>U\<close>, which is read from a file.
\<close>

function
  retrieve ::
    "collaborators \<Rightarrow> store \<Rightarrow> adf \<Rightarrow> string \<Rightarrow> string \<Rightarrow> string \<Rightarrow> bool \<Rightarrow> error + retrieved"
  and get_var_at_plev ::
    "collaborators \<Rightarrow> store \<Rightarrow> adf \<Rightarrow> string \<Rightarrow> string \<Rightarrow> string \<Rightarrow> real \<Rightarrow> error + dataarray"
  and get_u_at_plev ::
    "collaborators \<Rightarrow> store \<Rightarrow> adf \<Rightarrow> string \<Rightarrow> string \<Rightarrow> error + dataarray"
where
  "retrieve lib st adfobj variable casename location return_dataset =
     (if variable \<notin> set v_to_derive then
        (let fils = find_files st location casename variable in
         if length fils = 0 then
           Inl (ValueError (''something went wrong for variable: '' @ variable))
         else
           (let ds = (if 1 < length fils then open_mfdataset st fils
                      else open_dataset st (hd fils)) in
            if return_dataset then Inr (AsDataset ds)
            else (case getitem ds variable of Inl e \<Rightarrow> Inl e | Inr da \<Rightarrow> Inr (AsArray da))))
      else
        (case get_derive_func variable of
           Inl e \<Rightarrow> Inl e
         | Inr func \<Rightarrow>
             (case (case func of
                      Get_u_at_plev \<Rightarrow> get_u_at_plev lib st adfobj casename location
                    | _ \<Rightarrow> procedure lib func adfobj casename location) of
                Inl e \<Rightarrow> Inl e
              | Inr da \<Rightarrow>
                  if return_dataset then Inr (AsDataset [(variable, da)])
                  else Inr (AsArray da))))"
| "get_var_at_plev lib st adf casename location variable plev =
     (case retrieve lib st adf variable casename location True of
        Inl e \<Rightarrow> Inl e
      | Inr (AsArray _) \<Rightarrow> Inl (KeyError ''U'')
      | Inr (AsDataset dset) \<Rightarrow>
          ebind (getitem dset ''U'') (\<lambda>u.
          ebind (getitem dset ''PS'') (\<lambda>ps.
          ebind (getitem dset ''hyam'') (\<lambda>hyam.
          ebind (getitem dset ''hybm'') (\<lambda>hybm.
          ebind (interp_hybrid_to_pressure lib u ps hyam hybm [100 * plev] ''lev'') (\<lambda>vplev.
          Inr (squeeze vplev)))))))"
| "get_u_at_plev lib st adf casename location =
     get_var_at_plev lib st adf casename location ''U'' 300"
  by pat_completeness auto
termination
  by (relation "measure (\<lambda>a. case a of
        Inl (_, _, _, variable, _) \<Rightarrow> (if variable \<in> set v_to_derive then 3 else 0)
      | Inr (Inl (_, _, _, _, _, variable, _)) \<Rightarrow> (if variable \<in> set v_to_derive then 4 else 1)
      | Inr (Inr _) \<Rightarrow> 2)")
    (auto simp: v_to_derive_def)

declare retrieve.simps [simp del]
declare get_var_at_plev.simps [simp del]

section \<open>The loop over seasons, variables and cases\<close>

definition seasons :: "(string \<times> real list) list" where
  "seasons =
     [(''ANN'', [1, 2, 3, 4, 5, 6, 7, 8, 9, 10, 11, 12]),
      (''DJF'', [12, 1, 2]),
      (''JJA'', [6, 7, 8]),
      (''MAM'', [3, 4, 5]),
      (''SON'', [9, 10, 11])]"

definition var_list :: "string list" where
  "var_list =
     [''PSL'', ''SWCF'', ''LWCF'',
      ''TropicalLandPrecip'', ''TropicalOceanPrecip'',
      ''Land2mTemperature'', ''EquatorialPacificStress'',
      ''U300'', ''ColumnRelativeHumidity'', ''ColumnTemperature'']"

text \<open>The name and the directory of the reference (\<^verbatim>\<open>data_name\<close>, \<^verbatim>\<open>data_loc\<close>).\<close>

definition data_source :: "adf \<Rightarrow> string \<times> string" where
  "data_source adfobj =
     (if compare_obs adfobj then (''obs'', obs_climo_loc adfobj)
      else (baseline_case_name adfobj, baseline_climo_loc adfobj))"

text \<open>\<^verbatim>\<open>x.sel(time=months).mean(dim='time')\<close>\<close>

definition seasonal_mean :: "dataarray \<Rightarrow> real list \<Rightarrow> error + dataarray" where
  "seasonal_mean x months = ebind (xr_sel x ''time'' months) (\<lambda>s. xr_mean_dim s ''time'')"

text \<open>
  The statistics tables of one season, \<^verbatim>\<open>result_by_case[case].loc[v]\<close>; a row
  that was never assigned is \<open>None\<close>.
\<close>

type_synonym stats_table = "string \<times> string \<Rightarrow> (fval \<times> fval \<times> fval) option"

text \<open>The body of the loop over the cases, for the reference field \<open>base_x\<close>.\<close>

definition case_stats ::
  "collaborators \<Rightarrow> store \<Rightarrow> adf \<Rightarrow> real list \<Rightarrow> string \<Rightarrow> dataarray \<Rightarrow> nat \<Rightarrow> string
    \<Rightarrow> error + fval \<times> fval \<times> fval" where
  "case_stats lib st adfobj months v base_x casenumber cname =
     (if casenumber < length (cam_climo_loc adfobj) then
        ebind (retrieve lib st adfobj v cname (cam_climo_loc adfobj ! casenumber) False) (\<lambda>r.
        case r of
          AsDataset _ \<Rightarrow> Inl (KeyError ''time'')
        | AsArray case_x \<Rightarrow>
            ebind (seasonal_mean case_x months) (\<lambda>case_x.
            taylor_stats_single case_x base_x True))
      else Inl (IndexError ''list index out of range''))"

fun loop_cases ::
  "collaborators \<Rightarrow> store \<Rightarrow> adf \<Rightarrow> real list \<Rightarrow> string \<Rightarrow> dataarray \<Rightarrow> nat \<Rightarrow> string list
    \<Rightarrow> stats_table \<Rightarrow> error + stats_table" where
  "loop_cases lib st adfobj months v base_x casenumber [] tbl = Inr tbl"
| "loop_cases lib st adfobj months v base_x casenumber (cname # rest) tbl =
     ebind (case_stats lib st adfobj months v base_x casenumber cname) (\<lambda>row.
     loop_cases lib st adfobj months v base_x (Suc casenumber) rest (tbl((cname, v) \<mapsto> row)))"

fun loop_vars ::
  "collaborators \<Rightarrow> store \<Rightarrow> adf \<Rightarrow> real list \<Rightarrow> string list \<Rightarrow> stats_table
    \<Rightarrow> error + stats_table" where
  "loop_vars lib st adfobj months [] tbl = Inr tbl"
| "loop_vars lib st adfobj months (v # vs) tbl =
     ebind (retrieve lib st adfobj v (fst (data_source adfobj)) (snd (data_source adfobj)) False)
       (\<lambda>r. case r of
          AsDataset _ \<Rightarrow> Inl (KeyError ''lat'')
        | AsArray base_x \<Rightarrow>
            ebind (loop_cases lib st adfobj months v base_x 0 (cam_case_name adfobj) tbl)
              (\<lambda>tbl'. loop_vars lib st adfobj months vs tbl'))"

text \<open>The tables of one season; the loop over the seasons draws one diagram from each.\<close>

definition season_stats ::
  "collaborators \<Rightarrow> store \<Rightarrow> adf \<Rightarrow> string \<Rightarrow> error + stats_table" where
  "season_stats lib st adfobj s =
     (case map_of seasons s of
        None \<Rightarrow> Inl (KeyError s)
      | Some months \<Rightarrow> loop_vars lib st adfobj months var_list (\<lambda>_. None))"

section \<open>Bias markers\<close>

text \<open>
  \<^verbatim>\<open>np.digitize(x, bins)\<close> for increasing bins: the number of edges that are at most
  \<open>x\<close>, where numpy orders NaN after every number.
\<close>

fun edge_le :: "real \<Rightarrow> fval \<Rightarrow> bool" where
  "edge_le b (Fin x) = (b \<le> x)"
| "edge_le b PInf = True"
| "edge_le b NInf = False"
| "edge_le b NaN = True"

definition np_digitize :: "fval \<Rightarrow> real list \<Rightarrow> nat" where
  "np_digitize x bins = length (takeWhile (\<lambda>b. edge_le b x) bins)"

definition bias_thresholds :: "real list" where
  "bias_thresholds = [-20, -10, -5, -1, 1, 5, 10, 20]"

definition marker_list :: "string list" where
  "marker_list = [''v'', ''v'', ''v'', ''v'', ''o'', ''^'', ''^'', ''^'', ''^'']"

definition marker_size :: "nat list" where
  "marker_size = [24, 16, 8, 4, 4, 4, 8, 16, 24]"

definition bias_digi :: "fval \<Rightarrow> nat" where
  "bias_digi bias = np_digitize bias bias_thresholds"

text \<open>The marker and its size that \<^verbatim>\<open>plot_taylor_data\<close> draws for a row with this bias.\<close>

definition bias_marker :: "fval \<Rightarrow> error + string \<times> nat" where
  "bias_marker bias =
     (let k = bias_digi bias in
      if k < length marker_list \<and> k < length marker_size
      then Inr (marker_list ! k, marker_size ! k)
      else Inl (IndexError ''list index out of range''))"

section \<open>Weights and reference reductions\<close>

text \<open>
  A field whose cells are finite or missing, and a weight vector along the latitudes of
  a field: one finite, non-negative weight for each latitude row.
\<close>

fun the_fin :: "fval \<Rightarrow> real" where
  "the_fin (Fin r) = r"
| "the_fin _ = 0"

fun nonneg :: "fval \<Rightarrow> bool" where
  "nonneg (Fin r) = (0 \<le> r)"
| "nonneg _ = False"

fun finite_or_nan :: "fval \<Rightarrow> bool" where
  "finite_or_nan (Fin r) = True"
| "finite_or_nan NaN = True"
| "finite_or_nan _ = False"

definition finite_or_missing :: "dataarray \<Rightarrow> bool" where
  "finite_or_missing x = list_all (\<lambda>e. finite_or_nan (vals x e)) (cells x)"

definition lat_weights :: "dataarray \<Rightarrow> dataarray \<Rightarrow> bool" where
  "lat_weights w x =
     (distinct (dims x)
      \<and> (case map_of (coords x) ''lat'' of None \<Rightarrow> False | Some ls \<Rightarrow> coords w = [(''lat'', ls)])
      \<and> list_all (\<lambda>e. nonneg (vals w e)) (cells w @ cells x))"

text \<open>
  A field that is not constant under a weight vector: it takes two different values on
  cells that are present and have a positive weight.
\<close>

definition varies :: "dataarray \<Rightarrow> dataarray \<Rightarrow> bool" where
  "varies x w =
     list_ex (\<lambda>e1. list_ex (\<lambda>e2.
         vals x e1 \<noteq> NaN \<and> vals x e2 \<noteq> NaN \<and> vals x e1 \<noteq> vals x e2
         \<and> 0 < the_fin (vals w e1) \<and> 0 < the_fin (vals w e2)) (cells x)) (cells x)"

text \<open>
  Weights that are numbers of the arithmetic: the product with one leaves them as they
  are, on every cell of the field.
\<close>

definition arithmetic_weights :: "arith \<Rightarrow> dataarray \<Rightarrow> dataarray \<Rightarrow> bool" where
  "arithmetic_weights ar w x = list_all (\<lambda>e. ar_mul ar (Fin 1) (vals w e) = vals w e) (cells x)"

text \<open>The weights that \<^verbatim>\<open>taylor_stats_single\<close> builds from the latitudes \<open>ls\<close>.\<close>

definition cos_lat :: "real list \<Rightarrow> dataarray" where
  "cos_lat ls =
     xr_map np_cos (xr_map np_radians \<lparr>coords = [(''lat'', ls)], vals = \<lambda>e. Fin (e ''lat'')\<rparr>)"

text \<open>The cells of an array paired with their weights, over the grid that both share.\<close>

definition cell_pairs :: "dataarray \<Rightarrow> dataarray \<Rightarrow> (fval \<times> fval) list" where
  "cell_pairs a w = map (\<lambda>e. (vals a e, vals w e)) (envs (join_coords (coords a) (coords w)))"

text \<open>
  The reference for the weighted reductions. The cells of an array are paired with
  their weights; a cell whose value is missing (NaN) contributes the term zero to the
  weighted sum and the weight zero to the sum of the weights, so that its weight is
  effectively zero. The mean is the quotient of the two sums, and NaN when the weights
  sum to zero. \<open>restricted_mean_ar\<close> is the same mean taken over the list of the
  present cells alone.
\<close>

definition masked_terms :: "arith \<Rightarrow> (fval \<times> fval) list \<Rightarrow> fval list" where
  "masked_terms ar ps = map (\<lambda>p. if fst p = NaN then Fin 0 else ar_mul ar (fst p) (snd p)) ps"

definition masked_weights :: "(fval \<times> fval) list \<Rightarrow> fval list" where
  "masked_weights ps = map (\<lambda>p. if fst p = NaN then Fin 0 else snd p) ps"

definition weight_total :: "fval \<Rightarrow> fval" where
  "weight_total s = (if s \<noteq> Fin 0 then s else NaN)"

definition masked_ratio :: "arith \<Rightarrow> (fval \<times> fval) list \<Rightarrow> (fval \<times> fval) list \<Rightarrow> fval" where
  "masked_ratio ar num den =
     ar_div ar (ar_sum ar (masked_terms ar num)) (weight_total (ar_sum ar (masked_weights den)))"

definition masked_mean :: "arith \<Rightarrow> dataarray \<Rightarrow> dataarray \<Rightarrow> fval" where
  "masked_mean ar a w = masked_ratio ar (cell_pairs a w) (cell_pairs a w)"

definition restricted_mean_ar :: "arith \<Rightarrow> (fval \<times> fval) list \<Rightarrow> fval" where
  "restricted_mean_ar ar ps =
     (let present = filter (\<lambda>p. fst p \<noteq> NaN) ps
      in ar_div ar (ar_sum ar (map (\<lambda>p. ar_mul ar (fst p) (snd p)) present))
           (weight_total (ar_sum ar (map snd present))))"

text \<open>
  The deviations of a field from its mean over the present cells, the covariance of two
  fields and the variance under the standard deviation, which sums the squared
  deviations that are present and divides by the weights of the cells where the field is
  present.
\<close>

definition deviation :: "arith \<Rightarrow> dataarray \<Rightarrow> dataarray \<Rightarrow> dataarray" where
  "deviation ar a w = xr_binop (ar_sub ar) a (scalar (masked_mean ar a w))"

definition masked_cov :: "arith \<Rightarrow> dataarray \<Rightarrow> dataarray \<Rightarrow> dataarray \<Rightarrow> fval" where
  "masked_cov ar a b w = masked_mean ar (xr_binop (ar_mul ar) (deviation ar a w) (deviation ar b w)) w"

definition masked_var :: "arith \<Rightarrow> dataarray \<Rightarrow> dataarray \<Rightarrow> fval" where
  "masked_var ar a w =
     masked_ratio ar (cell_pairs (xr_map (\<lambda>v. ar_mul ar v v) (deviation ar a w)) w) (cell_pairs a w)"

text \<open>The triple that the statistics built from these reductions give.\<close>

definition masked_stats ::
  "arith \<Rightarrow> dataarray \<Rightarrow> dataarray \<Rightarrow> dataarray \<Rightarrow> error + fval \<times> fval \<times> fval" where
  "masked_stats ar x y w =
     (let correlation = ar_div ar (masked_cov ar x y w)
                          (ar_sqrt ar (ar_mul ar (masked_cov ar x x w) (masked_cov ar y y w)));
          a_sigma = ar_sqrt ar (masked_var ar x w);
          b_sigma = ar_sqrt ar (masked_var ar y w);
          bias = ar_mul ar (Fin 100)
                   (ar_div ar (ar_sub ar (masked_mean ar x w) (masked_mean ar y w))
                      (masked_mean ar y w))
      in ebind (py_truediv_ar ar a_sigma b_sigma) (\<lambda>ratio. Inr (correlation, ratio, bias)))"

text \<open>The weight vector multiplied by a number, \<^verbatim>\<open>k * wgt\<close>.\<close>

definition rescaled :: "arith \<Rightarrow> real \<Rightarrow> dataarray \<Rightarrow> dataarray" where
  "rescaled ar k w = xr_map (ar_mul ar (Fin k)) w"

text \<open>
  The terms of a weighted sum: the cells of an array, with \<open>f\<close> applied, times their
  weights. The rescaling by \<open>k\<close> is exact on a weighted sum when every term and the
  sum itself are multiplied by \<open>k\<close>, and on a reduction (a sum of terms over a sum
  of weights) when it is exact on both sums, keeps a non-zero sum of weights non-zero and
  leaves the quotient as it was.
\<close>

definition weighted_terms :: "arith \<Rightarrow> (fval \<Rightarrow> fval) \<Rightarrow> dataarray \<Rightarrow> dataarray \<Rightarrow> fval list" where
  "weighted_terms ar f a w =
     map (\<lambda>e. ar_mul ar (f (vals a e)) (vals w e)) (envs (join_coords (coords a) (coords w)))"

definition scales_sum :: "arith \<Rightarrow> real \<Rightarrow> (fval \<Rightarrow> fval) \<Rightarrow> dataarray \<Rightarrow> dataarray \<Rightarrow> bool" where
  "scales_sum ar k f a w \<longleftrightarrow>
     weighted_terms ar f a (rescaled ar k w) = map (ar_mul ar (Fin k)) (weighted_terms ar f a w)
     \<and> ar_sum ar (map (ar_mul ar (Fin k)) (weighted_terms ar f a w))
         = ar_mul ar (Fin k) (ar_sum ar (weighted_terms ar f a w))"

definition scales_reduction :: "arith \<Rightarrow> real \<Rightarrow> dataarray \<Rightarrow> dataarray \<Rightarrow> dataarray \<Rightarrow> bool" where
  "scales_reduction ar k num den w \<longleftrightarrow>
     (let n = ar_sum ar (weighted_terms ar fillna0 num w);
          d = ar_sum ar (weighted_terms ar notnull den w)
      in scales_sum ar k fillna0 num w \<and> scales_sum ar k notnull den w
         \<and> (ar_mul ar (Fin k) d = Fin 0) = (d = Fin 0)
         \<and> (d = Fin 0 \<or> ar_div ar (ar_mul ar (Fin k) n) (ar_mul ar (Fin k) d) = ar_div ar n d))"

text \<open>
  The reductions of the Taylor statistics, each as the array whose terms are summed and
  the array whose present cells give the sum of the weights: the two means, the
  covariance and the two variances of the correlation, and the variances under the two
  standard deviations.
\<close>

definition statistic_reductions ::
  "arith \<Rightarrow> dataarray \<Rightarrow> dataarray \<Rightarrow> dataarray \<Rightarrow> (dataarray \<times> dataarray) list" where
  "statistic_reductions ar x y w =
     (let dev_x = xr_binop (ar_sub ar) x (xr_weighted_mean_ar ar x w);
          dev_y = xr_binop (ar_sub ar) y (xr_weighted_mean_ar ar y w);
          xy = xr_binop (ar_mul ar) dev_x dev_y;
          xx = xr_binop (ar_mul ar) dev_x dev_x;
          yy = xr_binop (ar_mul ar) dev_y dev_y;
          sq_x = xr_map (\<lambda>v. ar_mul ar v v) dev_x;
          sq_y = xr_map (\<lambda>v. ar_mul ar v v) dev_y
      in [(x, x), (y, y), (xy, xy), (xx, xx), (yy, yy), (sq_x, x), (sq_y, y)])"

section \<open>Reference statements for the retrieval\<close>

text \<open>
  An error of the Unsupported kind (Python's \<^verbatim>\<open>NotImplementedError\<close>) whose
  message names every key of the registry.
\<close>

fun occurs_in :: "string \<Rightarrow> string \<Rightarrow> bool" where
  "occurs_in k [] = (k = [])"
| "occurs_in k (c # cs) = (take (length k) (c # cs) = k \<or> occurs_in k cs)"

definition unsupported_listing_keys :: "error + derive_func \<Rightarrow> bool" where
  "unsupported_listing_keys r =
     (case r of
        Inl (NotImplementedError msg) \<Rightarrow> list_all (\<lambda>k. occurs_in k msg) (map fst funcs)
      | _ \<Rightarrow> False)"

text \<open>
  The reading of the claim: only the named dimension is dropped, and only when its
  length is one.
\<close>

definition drop_dim :: "string \<Rightarrow> dataarray \<Rightarrow> dataarray" where
  "drop_dim d a =
     (case map_of (coords a) d of
        Some [l] \<Rightarrow> \<lparr>coords = filter (\<lambda>c. fst c \<noteq> d) (coords a), vals = \<lambda>e. vals a (e(d := l))\<rparr>
      | _ \<Rightarrow> a)"

text \<open>A cell address that gives every dimension of length one its only label.\<close>

definition fixes_degenerate :: "env \<Rightarrow> dataarray \<Rightarrow> bool" where
  "fixes_degenerate e a =
     list_all (\<lambda>c. length (snd c) \<noteq> 1 \<or> e (fst c) = hd (snd c)) (coords a)"

section \<open>Example inputs\<close>

text \<open>Two fields on a grid of two latitudes and two longitudes.\<close>

definition ex_case :: dataarray where
  "ex_case =
     \<lparr>coords = [(''lat'', [-60, 60]), (''lon'', [0, 180])],
      vals = \<lambda>e. Fin (e ''lat'' / 60 + e ''lon'' / 90 + 3)\<rparr>"

definition ex_ref :: dataarray where
  "ex_ref =
     \<lparr>coords = [(''lat'', [-60, 60]), (''lon'', [0, 180])],
      vals = \<lambda>e. Fin (e ''lat'' / 30 + e ''lon'' / 180 + 5)\<rparr>"

text \<open>A field on two latitudes whose weighted mean is zero.\<close>

definition ex_zero_mean :: dataarray where
  "ex_zero_mean =
     \<lparr>coords = [(''lat'', [-60, 60]), (''lon'', [0])], vals = \<lambda>e. Fin (e ''lat'' / 60)\<rparr>"

text \<open>Two fields on the same grid, each with one missing cell.\<close>

definition ex_masked_case :: dataarray where
  "ex_masked_case =
     \<lparr>coords = [(''lat'', [-60, 60]), (''lon'', [0, 180])],
      vals = \<lambda>e. if e ''lat'' = -60 \<and> e ''lon'' = 180 then NaN
                  else Fin (e ''lat'' / 60 + e ''lon'' / 90 + 3)\<rparr>"

definition ex_masked_ref :: dataarray where
  "ex_masked_ref =
     \<lparr>coords = [(''lat'', [-60, 60]), (''lon'', [0, 180])],
      vals = \<lambda>e. if e ''lat'' = 60 \<and> e ''lon'' = 0 then NaN
                  else Fin (e ''lat'' / 30 + e ''lon'' / 180 + 5)\<rparr>"

text \<open>
  A climatology directory with one file of convective and two files of large-scale
  precipitation and no file of total precipitation, and a file of temperature that also
  holds the wind and the hybrid coefficients. The test case and the baseline both hold
  the same monthly sea-level pressure \<open>ex_psl\<close>, whose mean over December, January
  and February is \<open>ex_djf\<close>.
\<close>

definition ex_level_field :: "real \<Rightarrow> dataarray" where
  "ex_level_field v = \<lparr>coords = [(''lat'', [0])], vals = \<lambda>e. Fin v\<rparr>"

definition ex_column_field :: "real \<Rightarrow> dataarray" where
  "ex_column_field v =
     \<lparr>coords = [(''lev'', [1, 2]), (''lat'', [0])], vals = \<lambda>e. Fin (v * e ''lev'')\<rparr>"

definition ex_t_dataset :: dataset where
  "ex_t_dataset =
     [(''T'', ex_column_field 250), (''U'', ex_column_field 10), (''PS'', ex_level_field 100000),
      (''hyam'', ex_column_field 0), (''hybm'', ex_column_field (1 / 2))]"

definition ex_psl :: dataarray where
  "ex_psl =
     \<lparr>coords = [(''time'', [1, 2, 3, 4, 5, 6, 7, 8, 9, 10, 11, 12]),
                (''lat'', [-60, 60]), (''lon'', [0])],
      vals = \<lambda>e. Fin (e ''time'' + (e ''lat'' + 60) / 120)\<rparr>"

definition ex_djf :: dataarray where
  "ex_djf =
     \<lparr>coords = [(''lat'', [-60, 60]), (''lon'', [0])],
      vals = \<lambda>e. Fin (5 + (e ''lat'' + 60) / 120)\<rparr>"

definition ex_open :: "string \<Rightarrow> dataset" where
  "ex_open path =
     (if path = ''cam_PRECC_climo.nc'' then [(''PRECC'', ex_level_field 1)]
      else if path = ''cam_PRECL_a.nc'' then [(''PRECL'', ex_level_field 2)]
      else if path = ''cam_PRECL_b.nc'' then [(''PRECL'', ex_level_field 5)]
      else if path = ''cam_T_climo.nc'' then ex_t_dataset
      else if path = ''cam_PSL_climo.nc'' \<or> path = ''base_PSL_climo.nc'' then [(''PSL'', ex_psl)]
      else [])"

definition ex_store :: store where
  "ex_store =
     \<lparr>glob = (\<lambda>location pattern.
         if location = ''climo'' \<and> pattern = ''cam*_PRECC_*.nc'' then [''cam_PRECC_climo.nc'']
         else if location = ''climo'' \<and> pattern = ''cam*_PRECL_*.nc''
           then [''cam_PRECL_b.nc'', ''cam_PRECL_a.nc'']
         else if location = ''climo'' \<and> pattern = ''cam*_T_*.nc'' then [''cam_T_climo.nc'']
         else if location = ''climo'' \<and> pattern = ''cam*_PSL_*.nc'' then [''cam_PSL_climo.nc'']
         else if location = ''baseclimo'' \<and> pattern = ''base*_PSL_*.nc''
           then [''base_PSL_climo.nc'']
         else []),
      open_dataset = ex_open,
      open_mfdataset = (\<lambda>paths. concat (map ex_open paths))\<rparr>"

definition ex_adf :: adf where
  "ex_adf =
     \<lparr>cam_case_name = [''cam''], cam_climo_loc = [''climo''], compare_obs = False,
      obs_climo_loc = [], baseline_case_name = ''base'', baseline_climo_loc = ''baseclimo''\<rparr>"

text \<open>
  Collaborators for the examples: an interpolation that takes the first level and labels
  it with the new level, and registry procedures that find no files.
\<close>

definition ex_lib :: collaborators where
  "ex_lib =
     \<lparr>interp_hybrid_to_pressure = (\<lambda>u ps hyam hybm new_levels lev_dim.
         Inr \<lparr>coords = (''plev'', new_levels) # filter (\<lambda>c. fst c \<noteq> lev_dim) (coords u),
              vals = \<lambda>e. vals u (e(lev_dim := 1))\<rparr>),
      procedure = (\<lambda>func adfobj casename location. Inl (IOError ''no files''))\<rparr>"

text \<open>The wind of the example dataset on the level that the example interpolation keeps.\<close>

definition ex_u_interpolated :: dataarray where
  "ex_u_interpolated =
     \<lparr>coords = [(''plev'', [30000]), (''lat'', [0])],
      vals = \<lambda>e. vals (ex_column_field 10) (e(''lev'' := 1))\<rparr>"

text \<open>The latitude weights of the examples multiplied by \<open>2 ^ 1023\<close>.\<close>

definition ex_huge_weights :: dataarray where
  "ex_huge_weights = rescaled binary64_range (2 ^ 1023) (cos_lat [-60, 60])"

section \<open>Properties\<close>

lemma bias_digi_le: "bias_digi x \<le> 8"
proof -
  have "length (takeWhile (\<lambda>b. edge_le b x) bias_thresholds) \<le> length bias_thresholds"
    by (rule length_takeWhile_le)
  then show ?thesis by (simp add: bias_digi_def np_digitize_def bias_thresholds_def)
qed

text \<open>
  C8. The bias bin is \<^verbatim>\<open>np.digitize\<close> of the bias against the eight thresholds
  \<open>-20, -10, -5, -1, 1, 5, 10, 20\<close>, one of the nine bins 0 to 8. A finite bias falls
  into the bin numbered by the thresholds that are at most the bias, so a bias equal to
  a threshold lies in the bin that starts there. The biases -25, -15, -7, -2, 0, 2, 7,
  15, 25 fall into the bins 0 to 8 in this order. The marker of a bin is a downward
  triangle of size 24, 16, 8, 4 for the bins 0 to 3, a circle of size 4 for bin 4 and an
  upward triangle of size 4, 8, 16, 24 for the bins 5 to 8.
\<close>

theorem bias_bins_and_markers:
  "bias_digi x = np_digitize x [-20, -10, -5, -1, 1, 5, 10, 20]
   \<and> bias_digi x < 9
   \<and> bias_digi (Fin r) = length (filter (\<lambda>b. b \<le> r) bias_thresholds)
   \<and> map (\<lambda>b. bias_digi (Fin b)) [-20, -10, -5, -1, 1, 5, 10, 20] = [1, 2, 3, 4, 5, 6, 7, 8]
   \<and> map (\<lambda>b. bias_digi (Fin b)) [-25, -15, -7, -2, 0, 2, 7, 15, 25]
       = [0, 1, 2, 3, 4, 5, 6, 7, 8]
   \<and> map (\<lambda>k. (marker_list ! k, marker_size ! k)) [0, 1, 2, 3, 4, 5, 6, 7, 8]
       = [(''v'', 24), (''v'', 16), (''v'', 8), (''v'', 4), (''o'', 4),
          (''^'', 4), (''^'', 8), (''^'', 16), (''^'', 24)]
   \<and> bias_marker x = Inr (marker_list ! bias_digi x, marker_size ! bias_digi x)"
proof -
  have bound: "bias_digi x \<le> 8" by (rule bias_digi_le)
  have unfolded: "bias_digi x = np_digitize x [-20, -10, -5, -1, 1, 5, 10, 20]"
    by (simp add: bias_digi_def bias_thresholds_def)
  have count: "bias_digi (Fin r) = length (filter (\<lambda>b. b \<le> r) bias_thresholds)"
    by (simp add: bias_digi_def np_digitize_def bias_thresholds_def)
  have edges: "map (\<lambda>b. bias_digi (Fin b)) [-20, -10, -5, -1, 1, 5, 10, 20]
      = [1, 2, 3, 4, 5, 6, 7, 8]"
    by (simp add: bias_digi_def np_digitize_def bias_thresholds_def)
  have samples: "map (\<lambda>b. bias_digi (Fin b)) [-25, -15, -7, -2, 0, 2, 7, 15, 25]
      = [0, 1, 2, 3, 4, 5, 6, 7, 8]"
    by (simp add: bias_digi_def np_digitize_def bias_thresholds_def)
  have table: "map (\<lambda>k. (marker_list ! k, marker_size ! k)) [0, 1, 2, 3, 4, 5, 6, 7, 8]
      = [(''v'', 24), (''v'', 16), (''v'', 8), (''v'', 4), (''o'', 4),
         (''^'', 4), (''^'', 8), (''^'', 16), (''^'', 24)]"
    by (simp add: marker_list_def marker_size_def)
  have marker: "bias_marker x = Inr (marker_list ! bias_digi x, marker_size ! bias_digi x)"
    using bound by (simp add: bias_marker_def Let_def marker_list_def marker_size_def)
  from bound unfolded count edges samples table marker show ?thesis by simp
qed

subsection \<open>Arrays and scalars\<close>

lemma ebind_Inl [simp]: "ebind (Inl e) f = Inl e"
  by (simp add: ebind_def)

lemma ebind_Inr [simp]: "ebind (Inr v) f = f v"
  by (simp add: ebind_def)

lemma coords_scalar [simp]: "coords (scalar v) = []"
  by (simp add: scalar_def)

lemma vals_scalar [simp]: "vals (scalar v) e = v"
  by (simp add: scalar_def)

lemma coords_xr_map [simp]: "coords (xr_map f x) = coords x"
  by (simp add: xr_map_def)

lemma vals_xr_map [simp]: "vals (xr_map f x) e = f (vals x e)"
  by (simp add: xr_map_def)

lemma coords_xr_binop [simp]: "coords (xr_binop f x y) = join_coords (coords x) (coords y)"
  by (simp add: xr_binop_def)

lemma vals_xr_binop [simp]: "vals (xr_binop f x y) e = f (vals x e) (vals y e)"
  by (simp add: xr_binop_def)

lemma join_coords_Nil_right [simp]: "join_coords cs [] = cs"
  by (simp add: join_coords_def)

lemma join_coords_Nil_left [simp]: "join_coords [] cs = cs"
  by (simp add: join_coords_def)

lemma xr_map_scalar [simp]: "xr_map f (scalar v) = scalar (f v)"
  by (simp add: xr_map_def scalar_def)

lemma xr_binop_scalar [simp]: "xr_binop f (scalar a) (scalar b) = scalar (f a b)"
  by (simp add: xr_binop_def scalar_def)

lemma item_scalar [simp]: "item (scalar v) = Inr v"
  by (simp add: item_def cells_def)

lemma fmul_pos_NaN_iff: "0 < k \<Longrightarrow> fmul (Fin k) v = NaN \<longleftrightarrow> v = NaN"
  by (cases v) (auto simp: signed_inf_def)

lemma fmul_scale_right: "0 < k \<Longrightarrow> fmul a (fmul (Fin k) b) = fmul (Fin k) (fmul a b)"
  by (cases a; cases b) (auto simp: signed_inf_def zero_less_mult_iff mult_less_0_iff)

lemma fadd_scale: "0 < k \<Longrightarrow> fadd (fmul (Fin k) a) (fmul (Fin k) b) = fmul (Fin k) (fadd a b)"
  by (cases a; cases b) (auto simp: signed_inf_def distrib_left)

lemma fsum_scale: "0 < k \<Longrightarrow> fsum (map (\<lambda>e. fmul (Fin k) (g e)) es) = fmul (Fin k) (fsum (map g es))"
  by (induction es) (simp_all add: fsum_def fadd_scale)

lemma fdiv_scale: "0 < k \<Longrightarrow> fdiv (fmul (Fin k) a) (fmul (Fin k) b) = fdiv a b"
  by (cases a; cases b) (auto simp: signed_inf_def zero_less_mult_iff mult_less_0_iff zero_le_mult_iff)

subsection \<open>Coordinates and latitude weights\<close>

lemma join_coords_self:
  assumes "distinct (map fst cs)"
  shows "join_coords cs cs = cs"
proof -
  have "map (\<lambda>c. case map_of cs (fst c) of None \<Rightarrow> c
                  | Some ls \<Rightarrow> (fst c, filter (\<lambda>l. l \<in> set ls) (snd c))) cs = cs"
  proof (rule map_idI)
    fix c assume c: "c \<in> set cs"
    then have "map_of cs (fst c) = Some (snd c)"
      using assms by (simp add: map_of_is_SomeI)
    then show "(case map_of cs (fst c) of None \<Rightarrow> c
                | Some ls \<Rightarrow> (fst c, filter (\<lambda>l. l \<in> set ls) (snd c))) = c"
      by simp
  qed
  moreover have "filter (\<lambda>c. fst c \<notin> set (map fst cs)) cs = []"
    by (simp add: filter_empty_conv)
  ultimately show ?thesis by (simp add: join_coords_def)
qed

lemma join_coords_single:
  assumes "distinct (map fst cs)" and "map_of cs d = Some ls"
  shows "join_coords cs [(d, ls)] = cs"
proof -
  have "map (\<lambda>c. case map_of [(d, ls)] (fst c) of None \<Rightarrow> c
                  | Some ls' \<Rightarrow> (fst c, filter (\<lambda>l. l \<in> set ls') (snd c))) cs = cs"
  proof (rule map_idI)
    fix c assume c: "c \<in> set cs"
    show "(case map_of [(d, ls)] (fst c) of None \<Rightarrow> c
           | Some ls' \<Rightarrow> (fst c, filter (\<lambda>l. l \<in> set ls') (snd c))) = c"
    proof (cases "fst c = d")
      case True
      from c assms(1) have "map_of cs (fst c) = Some (snd c)" by (simp add: map_of_is_SomeI)
      with True assms(2) have "snd c = ls" by simp
      with True show ?thesis by (cases c) simp
    next
      case False
      then show ?thesis by simp
    qed
  qed
  moreover have "d \<in> set (map fst cs)"
    using assms(2) by (metis map_of_eq_None_iff option.distinct(1) set_map)
  ultimately show ?thesis by (simp add: join_coords_def)
qed

lemma fadd_zero_left [simp]: "fadd (Fin 0) s = s"
  by (cases s) simp_all

text \<open>What a weight vector along the latitudes of a field gives.\<close>

lemma lat_weights_cells:
  assumes "lat_weights w x"
  shows "join_coords (coords x) (coords w) = coords x"
    and "\<And>e. e \<in> set (cells x) \<Longrightarrow> nonneg (vals w e)"
    and "xr_weighted (DataArrayW w) = Inr w"
    and "distinct (map fst (coords x))"
proof -
  from assms have d: "distinct (map fst (coords x))"
    by (simp add: lat_weights_def dims_def)
  from assms obtain ls where ls: "map_of (coords x) ''lat'' = Some ls" "coords w = [(''lat'', ls)]"
    by (auto simp: lat_weights_def split: option.splits)
  from assms have nn: "list_all (\<lambda>e. nonneg (vals w e)) (cells w @ cells x)"
    by (simp add: lat_weights_def)
  show "join_coords (coords x) (coords w) = coords x"
    using join_coords_single [OF d ls(1)] ls(2) by simp
  show "\<And>e. e \<in> set (cells x) \<Longrightarrow> nonneg (vals w e)"
    using nn by (simp add: list_all_iff)
  have "\<And>e. e \<in> set (cells w) \<Longrightarrow> vals w e \<noteq> NaN"
  proof -
    fix e assume "e \<in> set (cells w)"
    with nn have "nonneg (vals w e)" by (simp add: list_all_iff)
    then show "vals w e \<noteq> NaN" by (cases "vals w e") simp_all
  qed
  then show "xr_weighted (DataArrayW w) = Inr w"
    by (auto simp: xr_weighted_def list_ex_iff)
  show "distinct (map fst (coords x))" by (rule d)
qed

lemma scalar_eq_iff [simp]: "scalar a = scalar b \<longleftrightarrow> a = b"
  by (auto simp: scalar_def fun_eq_iff)

lemma taylor_stats_single_weighted:
  "map_of (coords x) ''lat'' = Some ls \<Longrightarrow>
   taylor_stats_single x y True = taylor_stats_wgt x y (DataArrayW (cos_lat ls))"
  by (simp add: taylor_stats_single_def coord_array_def cos_lat_def)

lemma cos_deg60: "cos (60 * pi / 180) = 1 / 2" "cos (- (60 * pi / 180)) = 1 / 2"
  "cos (pi / 3) = 1 / 2"
  using cos_60 by simp_all

lemma coords_cos_lat [simp]: "coords (cos_lat ls) = [(''lat'', ls)]"
  by (simp add: cos_lat_def)

lemma vals_cos_lat [simp]: "vals (cos_lat ls) e = Fin (cos (e ''lat'' * pi / 180))"
  by (simp add: cos_lat_def)

lemmas reduce_defs = xr_weighted_mean_def xr_sum_of_weights_def xr_reduce_def xr_dot_def
  join_coords_def fsum_def fillna0_def notnull_def fsub_def

lemma ex_weights_ok:
  "xr_weighted (DataArrayW (cos_lat [-60, 60])) = Inr (cos_lat [-60, 60])"
  by (simp add: xr_weighted_def cells_def cos_deg60)

lemma ex_zero_mean_mean:
  "xr_weighted_mean ex_zero_mean (cos_lat [-60, 60]) = scalar (Fin 0)"
  by (simp add: ex_zero_mean_def reduce_defs cos_deg60)

lemma ex_zero_mean_cov:
  "xr_weighted_mean (xr_binop fmul (xr_binop fsub ex_zero_mean (scalar (Fin 0)))
     (xr_binop fsub ex_zero_mean (scalar (Fin 0)))) (cos_lat [-60, 60]) = scalar (Fin 1)"
  by (simp add: ex_zero_mean_def reduce_defs cos_deg60)

lemma ex_zero_mean_var:
  "xr_weighted_var ex_zero_mean (cos_lat [-60, 60]) = scalar (Fin 1)"
  by (simp add: xr_weighted_var_def xr_sum_of_squares_def ex_zero_mean_mean Let_def)
     (simp add: ex_zero_mean_def xr_sum_of_weights_def xr_reduce_def xr_dot_def join_coords_def
       fsum_def fillna0_def notnull_def fsub_def cos_deg60)

lemma ex_case_mean: "xr_weighted_mean ex_case (cos_lat [-60, 60]) = scalar (Fin 4)"
  by (simp add: ex_case_def reduce_defs cos_deg60)

subsection \<open>The exact arithmetic as an instance\<close>

lemma exact_simps [simp]:
  "ar_sub exact = fsub" "ar_mul exact = fmul" "ar_div exact = fdiv" "ar_sqrt exact = fsqrt"
  "ar_cos exact = np_cos" "ar_radians exact = np_radians" "ar_sum exact = fsum"
  by (simp_all add: exact_def)

lemma xr_dot_exact: "xr_dot_ar exact = xr_dot"
  by (simp add: fun_eq_iff xr_dot_ar_def xr_dot_def)

lemma xr_reduce_exact: "xr_reduce_ar exact = xr_reduce"
  by (simp add: fun_eq_iff xr_reduce_ar_def xr_reduce_def xr_dot_exact)

lemma xr_sum_of_weights_exact: "xr_sum_of_weights_ar exact = xr_sum_of_weights"
  by (simp add: fun_eq_iff xr_sum_of_weights_ar_def xr_sum_of_weights_def xr_reduce_exact)

lemma xr_weighted_mean_exact: "xr_weighted_mean_ar exact = xr_weighted_mean"
  by (simp add: fun_eq_iff xr_weighted_mean_ar_def xr_weighted_mean_def xr_reduce_exact
      xr_sum_of_weights_exact)

lemma xr_sum_of_squares_exact: "xr_sum_of_squares_ar exact = xr_sum_of_squares"
  by (simp add: fun_eq_iff xr_sum_of_squares_ar_def xr_sum_of_squares_def xr_reduce_exact
      xr_weighted_mean_exact)

lemma xr_weighted_var_exact: "xr_weighted_var_ar exact = xr_weighted_var"
  by (simp add: fun_eq_iff xr_weighted_var_ar_def xr_weighted_var_def xr_sum_of_squares_exact
      xr_sum_of_weights_exact)

lemma xr_weighted_std_exact: "xr_weighted_std_ar exact = xr_weighted_std"
  by (simp add: fun_eq_iff xr_weighted_std_ar_def xr_weighted_std_def xr_weighted_var_exact)

lemma weighted_mean_exact: "weighted_mean_ar exact = weighted_mean"
  by (simp add: fun_eq_iff weighted_mean_ar_def weighted_mean_def xr_weighted_mean_exact)

lemma weighted_std_exact: "weighted_std_ar exact = weighted_std"
  by (simp add: fun_eq_iff weighted_std_ar_def weighted_std_def xr_weighted_std_exact)

lemma weighted_correlation_exact: "weighted_correlation_ar exact = weighted_correlation"
  by (simp add: fun_eq_iff weighted_correlation_ar_def weighted_correlation_def
      weighted_mean_exact)

lemma py_truediv_exact: "py_truediv_ar exact = py_truediv"
  by (simp add: fun_eq_iff py_truediv_ar_def py_truediv_def)

lemma taylor_stats_wgt_exact: "taylor_stats_wgt_ar exact = taylor_stats_wgt"
  by (simp add: fun_eq_iff taylor_stats_wgt_ar_def taylor_stats_wgt_def
      weighted_correlation_exact weighted_std_exact weighted_mean_exact py_truediv_exact)

lemma taylor_stats_single_exact: "taylor_stats_single_ar exact = taylor_stats_single"
  by (simp add: fun_eq_iff taylor_stats_single_ar_def taylor_stats_single_def
      taylor_stats_wgt_exact cong: if_cong)

lemma fmul_one_left: "fmul (Fin 1) v = v"
  by (cases v) (simp_all add: signed_inf_def)

lemma fmul_NaN_right: "fmul v NaN = NaN"
  by (cases v) simp_all

lemma fdiv_NaN_right: "fdiv v NaN = NaN"
  by (cases v) simp_all

lemma ieee_laws_exact: "ieee_laws exact"
  by (simp add: ieee_laws_def fmul_NaN_right fdiv_NaN_right fsub_def)

lemma arithmetic_weights_exact: "arithmetic_weights exact w x"
  by (simp add: arithmetic_weights_def list_all_iff fmul_one_left)

lemma fsum_filter_zero: "fsum (filter (\<lambda>v. v \<noteq> Fin 0) vs) = fsum vs"
  by (induction vs) (simp_all add: fsum_def)

lemma zeros_drop_exact: "zeros_drop exact"
  by (simp add: zeros_drop_def fsum_filter_zero)

subsection \<open>The arithmetic with the range of binary64\<close>

lemma binary64_range_simps [simp]:
  "ar_sub binary64_range = (\<lambda>a b. clip (fsub a b))"
  "ar_mul binary64_range = (\<lambda>a b. clip (fmul a b))"
  "ar_div binary64_range = (\<lambda>a b. clip (fdiv a b))"
  "ar_sqrt binary64_range = fsqrt"
  "ar_cos binary64_range = np_cos"
  "ar_radians binary64_range = np_radians"
  "ar_sum binary64_range = (\<lambda>vs. foldr (\<lambda>a b. clip (fadd a b)) vs (Fin 0))"
  by (simp_all add: binary64_range_def)

lemma clip_simps:
  "clip (Fin r) = (if 2 ^ 1024 \<le> \<bar>r\<bar> then signed_inf (0 < r) else Fin r)"
  "clip PInf = PInf" "clip NInf = NInf" "clip NaN = NaN"
  by (simp_all add: clip_def)

lemmas range_defs = xr_weighted_mean_ar_def xr_sum_of_weights_ar_def xr_reduce_ar_def
  xr_dot_ar_def join_coords_def fillna0_def notnull_def fsub_def clip_def signed_inf_def

lemma ieee_laws_range: "ieee_laws binary64_range"
  by (simp add: ieee_laws_def clip_simps fmul_NaN_right fdiv_NaN_right fsub_def)

lemma clip_idem: "clip (clip v) = clip v"
  by (cases v) (simp_all add: clip_simps signed_inf_def)

lemma range_sum_clipped: "clip (ar_sum binary64_range vs) = ar_sum binary64_range vs"
  by (cases vs) (simp_all add: clip_simps clip_idem)

lemma range_sum_filter_zero:
  "ar_sum binary64_range (filter (\<lambda>v. v \<noteq> Fin 0) vs) = ar_sum binary64_range vs"
proof (induction vs)
  case Nil
  then show ?case by simp
next
  case (Cons v vs)
  have "clip (fadd (Fin 0) (ar_sum binary64_range vs)) = ar_sum binary64_range vs"
    using range_sum_clipped [of vs] by simp
  with Cons show ?case by simp
qed

lemma zeros_drop_range: "zeros_drop binary64_range"
  by (simp only: zeros_drop_def range_sum_filter_zero) simp

lemma ex_range_mean:
  "xr_weighted_mean_ar binary64_range ex_djf (cos_lat [-60, 60]) = scalar (Fin (11 / 2))"
  by (simp add: ex_djf_def range_defs cos_deg60)

lemma ex_range_cov:
  "xr_weighted_mean_ar binary64_range
     (xr_binop (\<lambda>a b. clip (fmul a b)) (xr_binop (\<lambda>a b. clip (fsub a b)) ex_djf (scalar (Fin (11 / 2))))
        (xr_binop (\<lambda>a b. clip (fsub a b)) ex_djf (scalar (Fin (11 / 2))))) (cos_lat [-60, 60])
     = scalar (Fin (1 / 4))"
  by (simp add: ex_djf_def range_defs cos_deg60)

lemma ex_range_var:
  "xr_weighted_var_ar binary64_range ex_djf (cos_lat [-60, 60]) = scalar (Fin (1 / 4))"
  by (simp add: xr_weighted_var_ar_def xr_sum_of_squares_ar_def ex_range_mean Let_def)
    (simp add: ex_djf_def range_defs cos_deg60)

subsection \<open>The reductions under any arithmetic\<close>

lemma nonneg_finite: "nonneg v \<Longrightarrow> \<exists>r. v = Fin r"
  by (cases v) simp_all

lemma masked_products:
  assumes laws: "ieee_laws ar"
    and nn: "\<And>e. e \<in> set es \<Longrightarrow> nonneg (g e) \<and> ar_mul ar (Fin 1) (g e) = g e"
  shows "map (\<lambda>e. ar_mul ar (fillna0 (a e)) (g e)) es = masked_terms ar (map (\<lambda>e. (a e, g e)) es)"
    and "map (\<lambda>e. ar_mul ar (notnull (a e)) (g e)) es = masked_weights (map (\<lambda>e. (a e, g e)) es)"
proof -
  have zero: "\<And>r. ar_mul ar (Fin 0) (Fin r) = Fin 0"
    using laws by (simp add: ieee_laws_def)
  show "map (\<lambda>e. ar_mul ar (fillna0 (a e)) (g e)) es = masked_terms ar (map (\<lambda>e. (a e, g e)) es)"
    unfolding masked_terms_def map_map
  proof (rule map_cong [OF refl])
    fix e assume "e \<in> set es"
    then obtain r where "g e = Fin r" using nn nonneg_finite by blast
    then show "ar_mul ar (fillna0 (a e)) (g e)
        = ((\<lambda>p. if fst p = NaN then Fin 0 else ar_mul ar (fst p) (snd p)) \<circ> (\<lambda>e. (a e, g e))) e"
      by (simp add: fillna0_def zero)
  qed
  show "map (\<lambda>e. ar_mul ar (notnull (a e)) (g e)) es = masked_weights (map (\<lambda>e. (a e, g e)) es)"
    unfolding masked_weights_def map_map
  proof (rule map_cong [OF refl])
    fix e assume e: "e \<in> set es"
    then obtain r where r: "g e = Fin r" using nn nonneg_finite by blast
    from e have "ar_mul ar (Fin 1) (g e) = g e" using nn by blast
    with r show "ar_mul ar (notnull (a e)) (g e)
        = ((\<lambda>p. if fst p = NaN then Fin 0 else snd p) \<circ> (\<lambda>e. (a e, g e))) e"
      by (simp add: notnull_def zero)
  qed
qed

lemma xr_reduce_ar_masked:
  assumes "ieee_laws ar"
    and "\<And>e. e \<in> set (envs (join_coords (coords a) (coords w))) \<Longrightarrow>
      nonneg (vals w e) \<and> ar_mul ar (Fin 1) (vals w e) = vals w e"
  shows "xr_reduce_ar ar a w True = scalar (ar_sum ar (masked_terms ar (cell_pairs a w)))"
    and "xr_sum_of_weights_ar ar a w
      = scalar (weight_total (ar_sum ar (masked_weights (cell_pairs a w))))"
  using masked_products [of ar "envs (join_coords (coords a) (coords w))" "vals w" "vals a", OF assms]
  by (simp_all add: xr_reduce_ar_def xr_sum_of_weights_ar_def xr_dot_ar_def cell_pairs_def
      weight_total_def)

lemma xr_weighted_mean_ar_masked:
  assumes "ieee_laws ar"
    and "\<And>e. e \<in> set (envs (join_coords (coords a) (coords w))) \<Longrightarrow>
      nonneg (vals w e) \<and> ar_mul ar (Fin 1) (vals w e) = vals w e"
  shows "xr_weighted_mean_ar ar a w = scalar (masked_mean ar a w)"
  by (simp add: xr_weighted_mean_ar_def xr_reduce_ar_masked [OF assms] masked_mean_def
      masked_ratio_def)

lemma masked_filter:
  "filter (\<lambda>v. v \<noteq> Fin 0) (masked_terms ar ps)
     = filter (\<lambda>v. v \<noteq> Fin 0) (map (\<lambda>p. ar_mul ar (fst p) (snd p)) (filter (\<lambda>p. fst p \<noteq> NaN) ps))"
  "filter (\<lambda>v. v \<noteq> Fin 0) (masked_weights ps)
     = filter (\<lambda>v. v \<noteq> Fin 0) (map snd (filter (\<lambda>p. fst p \<noteq> NaN) ps))"
  by (induction ps) (simp_all add: masked_terms_def masked_weights_def)

lemma masked_ratio_restricted:
  assumes "zeros_drop ar"
  shows "masked_ratio ar ps ps = restricted_mean_ar ar ps"
proof -
  have drop: "\<And>vs. ar_sum ar vs = ar_sum ar (filter (\<lambda>v. v \<noteq> Fin 0) vs)"
    using assms by (simp add: zeros_drop_def)
  have "ar_sum ar (masked_terms ar ps)
      = ar_sum ar (map (\<lambda>p. ar_mul ar (fst p) (snd p)) (filter (\<lambda>p. fst p \<noteq> NaN) ps))"
    using drop [of "masked_terms ar ps"]
      drop [of "map (\<lambda>p. ar_mul ar (fst p) (snd p)) (filter (\<lambda>p. fst p \<noteq> NaN) ps)"]
    by (simp only: masked_filter)
  moreover have "ar_sum ar (masked_weights ps) = ar_sum ar (map snd (filter (\<lambda>p. fst p \<noteq> NaN) ps))"
    using drop [of "masked_weights ps"] drop [of "map snd (filter (\<lambda>p. fst p \<noteq> NaN) ps)"]
    by (simp only: masked_filter)
  ultimately show ?thesis
    by (simp add: masked_ratio_def restricted_mean_ar_def Let_def)
qed

subsection \<open>Missing cells in the weighted reductions\<close>

lemma fadd_NaN_right [simp]: "fadd v NaN = NaN"
  by (cases v) simp_all

lemma grid_weights:
  assumes lw: "lat_weights w x" and aw: "arithmetic_weights ar w x" and co: "coords a = coords x"
    and e: "e \<in> set (envs (join_coords (coords a) (coords w)))"
  shows "nonneg (vals w e) \<and> ar_mul ar (Fin 1) (vals w e) = vals w e"
proof -
  from e have c: "e \<in> set (cells x)"
    by (simp add: co lat_weights_cells(1) [OF lw] cells_def)
  then have "nonneg (vals w e)" by (rule lat_weights_cells(2) [OF lw])
  moreover from c aw have "ar_mul ar (Fin 1) (vals w e) = vals w e"
    by (simp add: arithmetic_weights_def list_all_iff)
  ultimately show ?thesis by simp
qed

lemma mean_on_grid:
  assumes laws: "ieee_laws ar" and lw: "lat_weights w x" and aw: "arithmetic_weights ar w x"
    and co: "coords a = coords x"
  shows "xr_weighted_mean_ar ar a w = scalar (masked_mean ar a w)"
  by (rule xr_weighted_mean_ar_masked [OF laws]) (rule grid_weights [OF lw aw co])

lemma coords_deviation [simp]: "coords (deviation ar a w) = coords a"
  by (simp add: deviation_def)

lemma var_on_grid:
  assumes laws: "ieee_laws ar" and lw: "lat_weights w x" and aw: "arithmetic_weights ar w x"
    and co: "coords a = coords x"
  shows "xr_weighted_var_ar ar a w = scalar (masked_var ar a w)"
proof -
  let ?sq = "xr_map (\<lambda>v. ar_mul ar v v) (deviation ar a w)"
  have sq: "xr_reduce_ar ar ?sq w True = scalar (ar_sum ar (masked_terms ar (cell_pairs ?sq w)))"
    by (rule xr_reduce_ar_masked(1) [OF laws]) (rule grid_weights [OF lw aw], simp_all add: co)
  have sw: "xr_sum_of_weights_ar ar a w
      = scalar (weight_total (ar_sum ar (masked_weights (cell_pairs a w))))"
    by (rule xr_reduce_ar_masked(2) [OF laws]) (rule grid_weights [OF lw aw co])
  show ?thesis
    by (simp add: xr_weighted_var_ar_def xr_sum_of_squares_ar_def Let_def
        mean_on_grid [OF laws lw aw co] sq [unfolded deviation_def] sw masked_var_def
        masked_ratio_def deviation_def)
qed

lemma statistics_on_grid:
  assumes laws: "ieee_laws ar" and lw: "lat_weights w x" and aw: "arithmetic_weights ar w x"
    and same: "coords y = coords x"
  shows "weighted_mean_ar ar x (DataArrayW w) = Inr (scalar (masked_mean ar x w))"
    and "weighted_mean_ar ar y (DataArrayW w) = Inr (scalar (masked_mean ar y w))"
    and "weighted_correlation_ar ar x y (DataArrayW w)
      = Inr (scalar (ar_div ar (masked_cov ar x y w)
               (ar_sqrt ar (ar_mul ar (masked_cov ar x x w) (masked_cov ar y y w)))))"
    and "weighted_std_ar ar x (DataArrayW w) = Inr (scalar (ar_sqrt ar (masked_var ar x w)))"
    and "weighted_std_ar ar y (DataArrayW w) = Inr (scalar (ar_sqrt ar (masked_var ar y w)))"
    and "taylor_stats_wgt_ar ar x y (DataArrayW w) = masked_stats ar x y w"
proof -
  note lc = lat_weights_cells [OF lw]
  have w: "xr_weighted (DataArrayW w) = Inr w" by (rule lc(3))
  have JJ: "join_coords (coords x) (coords x) = coords x"
    by (rule join_coords_self [OF lc(4)])
  have mean: "\<And>a. coords a = coords x \<Longrightarrow>
      weighted_mean_ar ar a (DataArrayW w) = Inr (scalar (masked_mean ar a w))"
    by (simp add: weighted_mean_ar_def w mean_on_grid [OF laws lw aw])
  show mx: "weighted_mean_ar ar x (DataArrayW w) = Inr (scalar (masked_mean ar x w))"
    by (rule mean) simp
  show my: "weighted_mean_ar ar y (DataArrayW w) = Inr (scalar (masked_mean ar y w))"
    by (rule mean) (rule same)
  have prod: "\<And>a b. coords a = coords x \<Longrightarrow> coords b = coords x \<Longrightarrow>
      weighted_mean_ar ar (xr_binop (ar_mul ar) (deviation ar a w) (deviation ar b w)) (DataArrayW w)
        = Inr (scalar (masked_cov ar a b w))"
    unfolding masked_cov_def by (rule mean) (simp add: JJ)
  show corr: "weighted_correlation_ar ar x y (DataArrayW w)
      = Inr (scalar (ar_div ar (masked_cov ar x y w)
               (ar_sqrt ar (ar_mul ar (masked_cov ar x x w) (masked_cov ar y y w)))))"
    using prod [of x y] prod [of x x] prod [of y y]
    by (simp add: weighted_correlation_ar_def mx my Let_def same deviation_def)
  have std: "\<And>a. coords a = coords x \<Longrightarrow>
      weighted_std_ar ar a (DataArrayW w) = Inr (scalar (ar_sqrt ar (masked_var ar a w)))"
    by (simp add: weighted_std_ar_def w xr_weighted_std_ar_def var_on_grid [OF laws lw aw])
  show sx: "weighted_std_ar ar x (DataArrayW w) = Inr (scalar (ar_sqrt ar (masked_var ar x w)))"
    by (rule std) simp
  show sy: "weighted_std_ar ar y (DataArrayW w) = Inr (scalar (ar_sqrt ar (masked_var ar y w)))"
    by (rule std) (rule same)
  show "taylor_stats_wgt_ar ar x y (DataArrayW w) = masked_stats ar x y w"
    by (simp add: taylor_stats_wgt_ar_def corr sx sy mx my masked_stats_def Let_def)
qed

lemma missing_deviations:
  assumes laws: "ieee_laws ar"
  shows "vals a e = NaN \<Longrightarrow>
      vals (xr_binop (ar_mul ar) (deviation ar a w) (deviation ar b w)) e = NaN"
    and "vals b e = NaN \<Longrightarrow>
      vals (xr_binop (ar_mul ar) (deviation ar a w) (deviation ar b w)) e = NaN"
    and "vals a e = NaN \<Longrightarrow> vals (xr_map (\<lambda>v. ar_mul ar v v) (deviation ar a w)) e = NaN"
  using laws by (simp_all add: ieee_laws_def deviation_def)

lemma single_weighted_ar:
  "coord_array x ''lat'' = Inr lat \<Longrightarrow>
   taylor_stats_single_ar ar x y True
     = taylor_stats_wgt_ar ar x y (DataArrayW (xr_map (ar_cos ar) (xr_map (ar_radians ar) lat)))"
  by (simp add: taylor_stats_single_ar_def)


lemmas exact_bridges = weighted_mean_exact weighted_std_exact weighted_correlation_exact
  taylor_stats_wgt_exact taylor_stats_single_exact

lemmas masked_defs = masked_mean_def masked_ratio_def masked_terms_def masked_weights_def
  weight_total_def cell_pairs_def join_coords_def fsum_def

lemma ex_masked_case_mean: "masked_mean exact ex_masked_case (cos_lat [-60, 60]) = Fin 4"
  by (simp add: masked_defs ex_masked_case_def cos_deg60)

lemma ex_masked_ref_mean: "masked_mean exact ex_masked_ref (cos_lat [-60, 60]) = Fin 5"
  by (simp add: masked_defs ex_masked_ref_def cos_deg60)

lemma ex_masked_cov: "masked_cov exact ex_masked_case ex_masked_ref (cos_lat [-60, 60]) = Fin 5"
  by (simp add: masked_cov_def deviation_def ex_masked_case_mean ex_masked_ref_mean)
    (simp add: masked_defs ex_masked_case_def ex_masked_ref_def cos_deg60 fsub_def)


subsection \<open>A field compared with itself\<close>

lemma self_stats_wgt:
  assumes laws: "ieee_laws ar"
    and mean: "weighted_mean_ar ar x wgt = Inr (scalar (Fin m))"
    and cov: "weighted_mean_ar ar
        (xr_binop (ar_mul ar) (xr_binop (ar_sub ar) x (scalar (Fin m)))
           (xr_binop (ar_sub ar) x (scalar (Fin m)))) wgt = Inr (scalar (Fin c))"
    and c: "c \<noteq> 0" and root: "ar_sqrt ar (ar_mul ar (Fin c) (Fin c)) = Fin c"
    and std: "weighted_std_ar ar x wgt = Inr (scalar (Fin s))" and s: "s \<noteq> 0"
  shows "taylor_stats_wgt_ar ar x x wgt = Inr (Fin 1, Fin 1, if m = 0 then NaN else Fin 0)"
proof -
  have quot: "\<And>a. a \<noteq> 0 \<Longrightarrow> ar_div ar (Fin a) (Fin a) = Fin 1"
    and diff: "\<And>a. ar_sub ar (Fin a) (Fin a) = Fin 0"
    and zero: "\<And>a. ar_div ar (Fin 0) (Fin a) = (if a = 0 then NaN else Fin 0)"
    and mz: "\<And>a. ar_mul ar (Fin a) (Fin 0) = Fin 0"
    and mn: "\<And>v. ar_mul ar v NaN = NaN"
    using laws by (auto simp: ieee_laws_def)
  have corr: "weighted_correlation_ar ar x x wgt = Inr (scalar (Fin 1))"
    by (simp add: weighted_correlation_ar_def mean cov Let_def root quot [OF c])
  have ratio: "py_truediv_ar ar (Fin s) (Fin s) = Inr (Fin 1)"
    using s by (simp add: py_truediv_ar_def quot)
  have bias: "ar_mul ar (Fin 100) (ar_div ar (ar_sub ar (Fin m) (Fin m)) (Fin m))
      = (if m = 0 then NaN else Fin 0)"
    by (simp add: diff zero mz mn)
  show ?thesis
    by (simp add: taylor_stats_wgt_ar_def corr std mean ratio bias)
qed


lemma ex_case_cov:
  "xr_weighted_mean (xr_binop fmul (xr_binop fsub ex_case (scalar (Fin 4)))
     (xr_binop fsub ex_case (scalar (Fin 4)))) (cos_lat [-60, 60]) = scalar (Fin 2)"
  by (simp add: ex_case_def reduce_defs cos_deg60)

lemma ex_case_var: "xr_weighted_var ex_case (cos_lat [-60, 60]) = scalar (Fin 2)"
  by (simp add: xr_weighted_var_def xr_sum_of_squares_def ex_case_mean Let_def)
     (simp add: ex_case_def xr_sum_of_weights_def xr_reduce_def xr_dot_def join_coords_def
       fsum_def fillna0_def notnull_def fsub_def cos_deg60)



subsection \<open>The vertical average of a column\<close>

text \<open>
  C7. A column whose level coordinate is stored from the bottom upwards: the field is 5
  on both levels, and \<^verbatim>\<open>vertical_average\<close> returns -5. The trapezoidal sum runs in
  storage order, from the pressure 100000 down to 50000, while the boundary integral
  takes its end pressures from the largest and the smallest level label. The same
  column stored from the top downwards gives 5, and a column of one level gives
  \<open>0 / 0\<close>, which is NaN.
\<close>

theorem vertical_average_descending_levels:
  "pres_from_hybrid 100000 100000 [0, 0] [1, 1 / 2] = [100000, 50000]
   \<and> vertical_average 100000 [1000, 500] [5, 5] 100000 [0, 0] [1, 1 / 2] = Inr (Fin (- 5))
   \<and> vertical_average 100000 [500, 1000] [5, 5] 100000 [0, 0] [1 / 2, 1] = Inr (Fin 5)
   \<and> vertical_average 100000 [500] [5] 100000 [1 / 2] [0] = Inr NaN"
  by (simp add: vertical_average_def pres_from_hybrid_def sel_lev_def)

subsection \<open>Total precipitation\<close>

lemma get_prect_one_precc:
  assumes "find_files st location casename ''PRECT'' = []"
    and "find_files st location casename ''PRECC'' = [f1]"
    and "find_files st location casename ''PRECL'' = f2 # others"
    and "getitem (open_dataset st f1) ''PRECC'' = Inr precc"
    and "getitem (open_dataset st f2) ''PRECL'' = Inr precl"
  shows "get_prect st casename location = Inr (xr_binop fadd precc precl)"
  using assms by (simp add: get_prect_def)

lemma get_prect_many_precc:
  assumes "find_files st location casename ''PRECT'' = []"
    and "1 < length (find_files st location casename ''PRECC'')"
    and "find_files st location casename ''PRECL'' \<noteq> []"
  shows "get_prect st casename location
    = Inl (NotImplementedError ''Need to deal with mult-file case.'')"
  using assms by (auto simp: get_prect_def Let_def)

text \<open>
  C2. With no file of total precipitation, one file of convective and two files of
  large-scale precipitation, \<^verbatim>\<open>get_prect\<close> does not raise: it returns the sum of the
  convective field and the field of the first large-scale file, and never reads the
  second. Only the number of convective files is tested before the sum.
\<close>

theorem get_prect_two_precl_files:
  "find_files ex_store ''climo'' ''cam'' ''PRECT'' = []
   \<and> find_files ex_store ''climo'' ''cam'' ''PRECC'' = [''cam_PRECC_climo.nc'']
   \<and> find_files ex_store ''climo'' ''cam'' ''PRECL'' = [''cam_PRECL_a.nc'', ''cam_PRECL_b.nc'']
   \<and> get_prect ex_store ''cam'' ''climo''
       = Inr (xr_binop fadd (ex_level_field 1) (ex_level_field 2))"
proof -
  have t: "find_files ex_store ''climo'' ''cam'' ''PRECT'' = []"
    by (simp add: find_files_def ex_store_def)
  have c: "find_files ex_store ''climo'' ''cam'' ''PRECC'' = [''cam_PRECC_climo.nc'']"
    by (simp add: find_files_def ex_store_def)
  have l: "find_files ex_store ''climo'' ''cam'' ''PRECL'' = [''cam_PRECL_a.nc'', ''cam_PRECL_b.nc'']"
    by (simp add: find_files_def ex_store_def)
  have pc: "getitem (open_dataset ex_store ''cam_PRECC_climo.nc'') ''PRECC'' = Inr (ex_level_field 1)"
    by (simp add: ex_store_def ex_open_def getitem_def)
  have pl: "getitem (open_dataset ex_store ''cam_PRECL_a.nc'') ''PRECL'' = Inr (ex_level_field 2)"
    by (simp add: ex_store_def ex_open_def getitem_def)
  from get_prect_one_precc [OF t c l pc pl] t c l show ?thesis by simp
qed

subsection \<open>The registry of derived variables\<close>

lemma v_to_derive_registry: "set v_to_derive = set (map fst funcs)"
  by (auto simp: v_to_derive_def funcs_def)

lemma retrieve_derived_has_procedure:
  "variable \<in> set v_to_derive \<Longrightarrow> \<exists>f. get_derive_func variable = Inr f"
  by (auto simp: v_to_derive_def get_derive_func_def funcs_def)

lemma retrieve_unknown_name:
  assumes "variable \<notin> set (map fst funcs)"
    and "find_files st location casename variable = []"
  shows "retrieve lib st adfobj variable casename location flag
    = Inl (ValueError (''something went wrong for variable: '' @ variable))"
  using assms by (simp add: retrieve.simps v_to_derive_registry)

text \<open>
  C3, amended. For every name that is not a key of the registry,
  \<^verbatim>\<open>get_derive_func\<close> fails with a ValueError whose message is
  \<^verbatim>\<open>We do not have a method for variable: NAME.\<close>: it names the requested
  variable and lists no key.
\<close>

theorem get_derive_func_unknown:
  assumes "fld \<notin> set (map fst funcs)"
  shows "get_derive_func fld
    = Inl (ValueError (''We do not have a method for variable: '' @ fld @ ''.''))"
proof -
  from assms have "map_of funcs fld = None"
    by (simp add: map_of_eq_None_iff)
  then show ?thesis by (simp add: get_derive_func_def)
qed

theorem get_derive_func_unknown_witness:
  "''PRECT'' \<notin> set (map fst funcs)
   \<and> get_derive_func ''PRECT''
       = Inl (ValueError (''We do not have a method for variable: '' @ ''PRECT'' @ ''.''))"
proof -
  have h: "''PRECT'' \<notin> set (map fst funcs)" by (simp add: funcs_def)
  from get_derive_func_unknown [OF h] h show ?thesis by simp
qed

text \<open>
  The claim as stated fails at the name \<^verbatim>\<open>PSL\<close>: the error is not of the
  Unsupported kind and its message holds none of the registry's keys.
\<close>

theorem get_derive_func_unknown_counterexample:
  "''PSL'' \<notin> set (map fst funcs)
   \<and> get_derive_func ''PSL'' = Inl (ValueError ''We do not have a method for variable: PSL.'')
   \<and> \<not> unsupported_listing_keys (get_derive_func ''PSL'')"
  by (simp add: get_derive_func_def funcs_def unsupported_listing_keys_def)

subsection \<open>The wind at a pressure level\<close>

lemma retrieve_dataset_flag:
  "retrieve lib st adfobj variable casename location True = Inr r \<Longrightarrow> \<exists>dset. r = AsDataset dset"
  by (auto simp: retrieve.simps Let_def split: if_splits sum.splits)

lemma get_var_at_plev_same_dataset:
  assumes "retrieve lib st adfobj v1 casename location True
    = retrieve lib st adfobj v2 casename location True"
  shows "get_var_at_plev lib st adfobj casename location v1 plev
    = get_var_at_plev lib st adfobj casename location v2 plev"
  using assms by (simp add: get_var_at_plev.simps)

lemma fold_update_fixed:
  "list_all (\<lambda>c. \<not> P c \<or> e (fst c) = h c) cs \<Longrightarrow>
   fold (\<lambda>c e'. if P c then e'(fst c := h c) else e') cs e = e"
proof (induction cs)
  case Nil
  then show ?case by simp
next
  case (Cons c cs)
  then have "(if P c then e(fst c := h c) else e) = e"
    by (auto simp: fun_upd_idem_iff)
  with Cons show ?case by simp
qed

lemma fold_update_overrides:
  "\<exists>c \<in> set cs. fst c = d \<and> P c \<Longrightarrow>
   fold (\<lambda>c e'. if P c then e'(fst c := h c) else e') cs (e(d := v))
     = fold (\<lambda>c e'. if P c then e'(fst c := h c) else e') cs e"
proof (induction cs arbitrary: e)
  case Nil
  then show ?case by simp
next
  case (Cons c cs)
  show ?case
  proof (cases "P c \<and> fst c = d")
    case True
    then have "(if P c then (e(d := v))(fst c := h c) else e(d := v))
        = (if P c then e(fst c := h c) else e)"
      by auto
    then show ?thesis by (simp only: fold_simps)
  next
    case False
    with Cons.prems have in_cs: "\<exists>c \<in> set cs. fst c = d \<and> P c" by auto
    have "(if P c then (e(d := v))(fst c := h c) else e(d := v))
        = (if P c then e(fst c := h c) else e)(d := v)"
      using False by (auto simp: fun_upd_twist)
    then show ?thesis by (simp only: fold_simps Cons.IH [OF in_cs])
  qed
qed

lemma squeeze_fixed:
  "fixes_degenerate e a \<Longrightarrow> vals (squeeze a) e = vals a e"
  unfolding squeeze_def fixes_degenerate_def
  using fold_update_fixed [of "\<lambda>c. length (snd c) = 1" e "\<lambda>c. hd (snd c)" "coords a"]
  by simp

lemma squeeze_overrides:
  "(d, [l]) \<in> set (coords a) \<Longrightarrow> vals (squeeze a) (e(d := v)) = vals (squeeze a) e"
  unfolding squeeze_def
  using fold_update_overrides [of "coords a" d "\<lambda>c. length (snd c) = 1" "\<lambda>c. hd (snd c)" e v]
  by force

text \<open>
  C4, amended. For every variable name and pressure level, when the name resolves to a
  dataset that holds \<^verbatim>\<open>U\<close>, \<^verbatim>\<open>PS\<close>, \<^verbatim>\<open>hyam\<close> and \<^verbatim>\<open>hybm\<close>,
  \<^verbatim>\<open>get_var_at_plev\<close> returns the field \<^verbatim>\<open>U\<close> of that dataset interpolated to
  the pressure \<open>100 * plev\<close>, with every dimension of length one dropped: the
  dimensions of the result are those of the interpolated wind that are longer than one,
  a cell of the result is the cell of the interpolated wind with the dropped dimensions
  at their only label, and the labels given to dropped dimensions do not matter. The
  field named by the variable is not read: the name only selects the dataset.
\<close>

theorem get_var_at_plev_squeezed_u:
  assumes "retrieve lib st adfobj variable casename location True = Inr (AsDataset dset)"
    and "getitem dset ''U'' = Inr u" and "getitem dset ''PS'' = Inr ps"
    and "getitem dset ''hyam'' = Inr hyam" and "getitem dset ''hybm'' = Inr hybm"
    and "interp_hybrid_to_pressure lib u ps hyam hybm [100 * plev] ''lev'' = Inr vplev"
  shows "\<exists>r. get_var_at_plev lib st adfobj casename location variable plev = Inr r
     \<and> coords r = filter (\<lambda>c. length (snd c) \<noteq> 1) (coords vplev)
     \<and> (\<forall>e. fixes_degenerate e vplev \<longrightarrow> vals r e = vals vplev e)
     \<and> (\<forall>e d l v. (d, [l]) \<in> set (coords vplev) \<longrightarrow> vals r (e(d := v)) = vals r e)"
proof -
  have r: "get_var_at_plev lib st adfobj casename location variable plev = Inr (squeeze vplev)"
    using assms by (simp add: get_var_at_plev.simps)
  have c: "coords (squeeze vplev) = filter (\<lambda>c. length (snd c) \<noteq> 1) (coords vplev)"
    by (simp add: squeeze_def)
  have f: "\<forall>e. fixes_degenerate e vplev \<longrightarrow> vals (squeeze vplev) e = vals vplev e"
    by (simp add: squeeze_fixed)
  have d: "\<forall>e d l v. (d, [l]) \<in> set (coords vplev) \<longrightarrow>
      vals (squeeze vplev) (e(d := v)) = vals (squeeze vplev) e"
    using squeeze_overrides by blast
  from r c f d show ?thesis by blast
qed

lemma ex_retrieve_t:
  "retrieve ex_lib ex_store ex_adf ''T'' ''cam'' ''climo'' True = Inr (AsDataset ex_t_dataset)"
proof -
  have files: "find_files ex_store ''climo'' ''cam'' ''T'' = [''cam_T_climo.nc'']"
    by (simp add: find_files_def ex_store_def)
  show ?thesis
    by (simp add: retrieve.simps v_to_derive_def files) (simp add: ex_store_def ex_open_def)
qed

lemma ex_interpolation:
  "interp_hybrid_to_pressure ex_lib (ex_column_field 10) (ex_level_field 100000)
     (ex_column_field 0) (ex_column_field (1 / 2)) [100 * 300] ''lev'' = Inr ex_u_interpolated"
  by (simp add: ex_lib_def ex_u_interpolated_def ex_column_field_def)

theorem get_var_at_plev_squeezed_u_witness:
  "retrieve ex_lib ex_store ex_adf ''T'' ''cam'' ''climo'' True = Inr (AsDataset ex_t_dataset)
   \<and> getitem ex_t_dataset ''U'' = Inr (ex_column_field 10)
   \<and> getitem ex_t_dataset ''PS'' = Inr (ex_level_field 100000)
   \<and> getitem ex_t_dataset ''hyam'' = Inr (ex_column_field 0)
   \<and> getitem ex_t_dataset ''hybm'' = Inr (ex_column_field (1 / 2))
   \<and> interp_hybrid_to_pressure ex_lib (ex_column_field 10) (ex_level_field 100000)
       (ex_column_field 0) (ex_column_field (1 / 2)) [100 * 300] ''lev'' = Inr ex_u_interpolated
   \<and> (\<exists>r. get_var_at_plev ex_lib ex_store ex_adf ''cam'' ''climo'' ''T'' 300 = Inr r
        \<and> coords r = []
        \<and> vals r ((\<lambda>_. 0)(''plev'' := 30000)) = Fin 10)"
proof -
  have u: "getitem ex_t_dataset ''U'' = Inr (ex_column_field 10)"
    and ps: "getitem ex_t_dataset ''PS'' = Inr (ex_level_field 100000)"
    and hyam: "getitem ex_t_dataset ''hyam'' = Inr (ex_column_field 0)"
    and hybm: "getitem ex_t_dataset ''hybm'' = Inr (ex_column_field (1 / 2))"
    by (simp_all add: ex_t_dataset_def getitem_def)
  from get_var_at_plev_squeezed_u [OF ex_retrieve_t u ps hyam hybm ex_interpolation]
  obtain r where r: "get_var_at_plev ex_lib ex_store ex_adf ''cam'' ''climo'' ''T'' 300 = Inr r"
    and c: "coords r = filter (\<lambda>c. length (snd c) \<noteq> 1) (coords ex_u_interpolated)"
    and f: "\<forall>e. fixes_degenerate e ex_u_interpolated \<longrightarrow> vals r e = vals ex_u_interpolated e"
    by blast
  have c0: "coords r = []" using c by (simp add: ex_u_interpolated_def)
  have "fixes_degenerate ((\<lambda>_. 0)(''plev'' := 30000)) ex_u_interpolated"
    by (simp add: fixes_degenerate_def ex_u_interpolated_def)
  with f have "vals r ((\<lambda>_. 0)(''plev'' := 30000))
      = vals ex_u_interpolated ((\<lambda>_. 0)(''plev'' := 30000))"
    by blast
  then have v: "vals r ((\<lambda>_. 0)(''plev'' := 30000)) = Fin 10"
    by (simp add: ex_u_interpolated_def ex_column_field_def)
  from r c0 v have "\<exists>r. get_var_at_plev ex_lib ex_store ex_adf ''cam'' ''climo'' ''T'' 300 = Inr r
        \<and> coords r = [] \<and> vals r ((\<lambda>_. 0)(''plev'' := 30000)) = Fin 10"
    by blast
  with ex_retrieve_t u ps hyam hybm ex_interpolation show ?thesis by (simp only: simp_thms)
qed

text \<open>
  The claim as stated fails where the interpolated wind has another dimension of length
  one: in the example the wind has one latitude, the claim's result (the vertical
  dimension dropped) still has the latitude as a dimension, and the function's result
  has no dimension left.
\<close>

theorem get_var_at_plev_squeezed_u_counterexample:
  "interp_hybrid_to_pressure ex_lib (ex_column_field 10) (ex_level_field 100000)
       (ex_column_field 0) (ex_column_field (1 / 2)) [100 * 300] ''lev'' = Inr ex_u_interpolated
   \<and> coords (drop_dim ''plev'' ex_u_interpolated) = [(''lat'', [0])]
   \<and> ebind (get_var_at_plev ex_lib ex_store ex_adf ''cam'' ''climo'' ''T'' 300)
       (\<lambda>r. Inr (coords r)) = Inr []
   \<and> get_var_at_plev ex_lib ex_store ex_adf ''cam'' ''climo'' ''T'' 300
       \<noteq> Inr (drop_dim ''plev'' ex_u_interpolated)"
proof -
  have c: "coords (drop_dim ''plev'' ex_u_interpolated) = [(''lat'', [0])]"
    by (simp add: drop_dim_def ex_u_interpolated_def)
  have r: "get_var_at_plev ex_lib ex_store ex_adf ''cam'' ''climo'' ''T'' 300
      = Inr (squeeze ex_u_interpolated)"
    using ex_interpolation
    by (simp add: get_var_at_plev.simps ex_retrieve_t ex_t_dataset_def getitem_def)
  have s: "coords (squeeze ex_u_interpolated) = []"
    by (simp add: squeeze_def ex_u_interpolated_def)
  have ne: "squeeze ex_u_interpolated \<noteq> drop_dim ''plev'' ex_u_interpolated"
    using c s by auto
  from ex_interpolation c r s ne show ?thesis by simp
qed

subsection \<open>The choice of the weight\<close>

lemma taylor_stats_single_unweighted:
  assumes "map_of (coords casedata) ''lat'' = Some ls"
  shows "taylor_stats_single casedata refdata False
    = Inl (ValueError ''`weights` must be a DataArray'')"
  using assms
  by (simp add: taylor_stats_single_def coord_array_def taylor_stats_wgt_def
      weighted_correlation_def weighted_mean_def xr_weighted_def)

lemma taylor_stats_single_correlation:
  assumes "map_of (coords casedata) ''lat'' = Some ls"
    and "taylor_stats_single casedata refdata True = Inr (correlation, ratio, bias)"
  shows "\<exists>c. weighted_correlation casedata refdata (DataArrayW (cos_lat ls)) = Inr c
     \<and> item c = Inr correlation"
  using assms
  by (auto simp: taylor_stats_single_weighted taylor_stats_wgt_def ebind_def
      split: sum.splits)

text \<open>
  C6. With \<open>w = False\<close> the weight is the numpy vector of ones, which
  \<^verbatim>\<open>DataArray.weighted\<close> refuses: \<^verbatim>\<open>taylor_stats_single\<close> raises a ValueError
  and returns no correlation, where its docstring promises a uniform weight.
\<close>

theorem taylor_stats_single_uniform_weight_fails:
  "taylor_stats_single ex_case ex_ref False = Inl (ValueError ''`weights` must be a DataArray'')"
  by (rule taylor_stats_single_unweighted [of _ "[-60, 60]"]) (simp add: ex_case_def)

subsection \<open>The reference field in the loop\<close>

lemma ex_psl_seasonal_mean: "seasonal_mean ex_psl [12, 1, 2] = Inr ex_djf"
  by (simp add: seasonal_mean_def xr_sel_def xr_mean_dim_def ex_psl_def ex_djf_def nanmean_def
      fsum_def fun_eq_iff)

lemma ex_retrieve_case:
  "retrieve ex_lib ex_store ex_adf ''PSL'' ''cam'' ''climo'' False = Inr (AsArray ex_psl)"
proof -
  have files: "find_files ex_store ''climo'' ''cam'' ''PSL'' = [''cam_PSL_climo.nc'']"
    by (simp add: find_files_def ex_store_def)
  show ?thesis
    by (simp add: retrieve.simps v_to_derive_def files)
      (simp add: ex_store_def ex_open_def getitem_def)
qed

lemma ex_retrieve_base:
  "retrieve ex_lib ex_store ex_adf ''PSL'' ''base'' ''baseclimo'' False = Inr (AsArray ex_psl)"
proof -
  have files: "find_files ex_store ''baseclimo'' ''base'' ''PSL'' = [''base_PSL_climo.nc'']"
    by (simp add: find_files_def ex_store_def)
  show ?thesis
    by (simp add: retrieve.simps v_to_derive_def files)
      (simp add: ex_store_def ex_open_def getitem_def)
qed

lemma ex_djf_mean: "xr_weighted_mean ex_djf (cos_lat [-60, 60]) = scalar (Fin (11 / 2))"
  by (simp add: ex_djf_def reduce_defs cos_deg60)

lemma ex_psl_mean: "xr_weighted_mean ex_psl (cos_lat [-60, 60]) = scalar (Fin 7)"
  by (simp add: ex_psl_def reduce_defs cos_deg60)

lemma ex_cov_xy:
  "xr_weighted_mean (xr_binop fmul (xr_binop fsub ex_djf (scalar (Fin (11 / 2))))
     (xr_binop fsub ex_psl (scalar (Fin 7)))) (cos_lat [-60, 60]) = scalar (Fin (1 / 4))"
  by (simp add: ex_djf_def ex_psl_def reduce_defs cos_deg60)

lemma ex_cov_xx:
  "xr_weighted_mean (xr_binop fmul (xr_binop fsub ex_djf (scalar (Fin (11 / 2))))
     (xr_binop fsub ex_djf (scalar (Fin (11 / 2))))) (cos_lat [-60, 60]) = scalar (Fin (1 / 4))"
  by (simp add: ex_djf_def reduce_defs cos_deg60)

lemma ex_cov_yy:
  "xr_weighted_mean (xr_binop fmul (xr_binop fsub ex_psl (scalar (Fin 7)))
     (xr_binop fsub ex_psl (scalar (Fin 7)))) (cos_lat [-60, 60]) = scalar (Fin (73 / 6))"
  by (simp add: ex_psl_def reduce_defs cos_deg60)

lemma ex_djf_var: "xr_weighted_var ex_djf (cos_lat [-60, 60]) = scalar (Fin (1 / 4))"
  by (simp add: xr_weighted_var_def xr_sum_of_squares_def ex_djf_mean Let_def)
    (simp add: ex_djf_def xr_sum_of_weights_def xr_reduce_def xr_dot_def join_coords_def
      fsum_def fillna0_def notnull_def fsub_def cos_deg60)

lemma ex_psl_var: "xr_weighted_var ex_psl (cos_lat [-60, 60]) = scalar (Fin (73 / 6))"
  by (simp add: xr_weighted_var_def xr_sum_of_squares_def ex_psl_mean Let_def)
    (simp add: ex_psl_def xr_sum_of_weights_def xr_reduce_def xr_dot_def join_coords_def
      fsum_def fillna0_def notnull_def fsub_def cos_deg60)

lemma ex_stats_unreduced:
  "taylor_stats_single ex_djf ex_psl True
    = Inr (fdiv (Fin (1 / 4)) (fsqrt (fmul (Fin (1 / 4)) (Fin (73 / 6)))),
           fdiv (fsqrt (Fin (1 / 4))) (fsqrt (Fin (73 / 6))),
           Fin (- 150 / 7))"
proof -
  have "taylor_stats_single ex_djf ex_psl True
      = taylor_stats_wgt ex_djf ex_psl (DataArrayW (cos_lat [-60, 60]))"
    by (rule taylor_stats_single_weighted) (simp add: ex_djf_def)
  also have "\<dots> = Inr (fdiv (Fin (1 / 4)) (fsqrt (fmul (Fin (1 / 4)) (Fin (73 / 6)))),
           fdiv (fsqrt (Fin (1 / 4))) (fsqrt (Fin (73 / 6))),
           Fin (- 150 / 7))"
    by (simp add: taylor_stats_wgt_def weighted_correlation_def weighted_mean_def
        weighted_std_def ex_weights_ok ex_djf_mean ex_psl_mean ex_cov_xy ex_cov_xx ex_cov_yy
        ex_djf_var ex_psl_var xr_weighted_std_def py_truediv_def fsub_def)
  finally show ?thesis .
qed

lemma ex_stats_reduced: "taylor_stats_single ex_djf ex_djf True = Inr (Fin 1, Fin 1, Fin 0)"
proof -
  have sq: "sqrt (1 / 16) = 1 / (4 :: real)"
    using real_sqrt_abs2 [of "1 / 4"] by simp
  have "taylor_stats_single ex_djf ex_djf True
      = taylor_stats_wgt ex_djf ex_djf (DataArrayW (cos_lat [-60, 60]))"
    by (rule taylor_stats_single_weighted) (simp add: ex_djf_def)
  also have "\<dots> = Inr (Fin 1, Fin 1, Fin 0)"
    by (simp add: taylor_stats_wgt_def weighted_correlation_def weighted_mean_def
        weighted_std_def ex_weights_ok ex_djf_mean ex_cov_xx ex_djf_var xr_weighted_std_def
        py_truediv_def fsub_def sq)
  finally show ?thesis .
qed

text \<open>
  C1. In the loop only the case field is reduced to the seasonal mean; the reference
  field reaches \<^verbatim>\<open>taylor_stats_single\<close> with its time axis. For a test case and a
  baseline that hold the same monthly field, the season DJF and the variable
  \<^verbatim>\<open>PSL\<close>, the loop stores a bias of \<open>-150 / 7\<close> per cent (the winter mean against
  the mean of all twelve months), where the seasonal mean of the reference gives the
  triple 1, 1, 0.
\<close>

theorem reference_not_reduced_to_season:
  "map_of seasons ''DJF'' = Some [12, 1, 2]
   \<and> retrieve ex_lib ex_store ex_adf ''PSL'' ''cam'' ''climo'' False
       = retrieve ex_lib ex_store ex_adf ''PSL'' (fst (data_source ex_adf))
           (snd (data_source ex_adf)) False
   \<and> ebind (loop_vars ex_lib ex_store ex_adf [12, 1, 2] [''PSL''] (\<lambda>_. None))
        (\<lambda>tbl. Inr (tbl (''cam'', ''PSL'')))
       = Inr (Some (fdiv (Fin (1 / 4)) (fsqrt (fmul (Fin (1 / 4)) (Fin (73 / 6)))),
                    fdiv (fsqrt (Fin (1 / 4))) (fsqrt (Fin (73 / 6))),
                    Fin (- 150 / 7)))
   \<and> ebind (seasonal_mean ex_psl [12, 1, 2])
        (\<lambda>base_x. case_stats ex_lib ex_store ex_adf [12, 1, 2] ''PSL'' base_x 0 ''cam'')
       = Inr (Fin 1, Fin 1, Fin 0)"
proof -
  have s: "map_of seasons ''DJF'' = Some [12, 1, 2]"
    by (simp add: seasons_def)
  have src: "data_source ex_adf = (''base'', ''baseclimo'')"
    by (simp add: data_source_def ex_adf_def)
  have same: "retrieve ex_lib ex_store ex_adf ''PSL'' ''cam'' ''climo'' False
       = retrieve ex_lib ex_store ex_adf ''PSL'' (fst (data_source ex_adf))
           (snd (data_source ex_adf)) False"
    by (simp add: src ex_retrieve_case ex_retrieve_base)
  have loc: "cam_climo_loc ex_adf = [''climo'']" and names: "cam_case_name ex_adf = [''cam'']"
    by (simp_all add: ex_adf_def)
  have code: "case_stats ex_lib ex_store ex_adf [12, 1, 2] ''PSL'' ex_psl 0 ''cam''
      = Inr (fdiv (Fin (1 / 4)) (fsqrt (fmul (Fin (1 / 4)) (Fin (73 / 6)))),
             fdiv (fsqrt (Fin (1 / 4))) (fsqrt (Fin (73 / 6))),
             Fin (- 150 / 7))"
    by (simp add: case_stats_def loc ex_retrieve_case ex_psl_seasonal_mean ex_stats_unreduced
        del: fdiv.simps fsqrt.simps fmul.simps)
  have loop: "ebind (loop_vars ex_lib ex_store ex_adf [12, 1, 2] [''PSL''] (\<lambda>_. None))
        (\<lambda>tbl. Inr (tbl (''cam'', ''PSL'')))
       = Inr (Some (fdiv (Fin (1 / 4)) (fsqrt (fmul (Fin (1 / 4)) (Fin (73 / 6)))),
                    fdiv (fsqrt (Fin (1 / 4))) (fsqrt (Fin (73 / 6))),
                    Fin (- 150 / 7)))"
    by (simp add: src ex_retrieve_base names code del: fdiv.simps fsqrt.simps fmul.simps)
  have spec: "ebind (seasonal_mean ex_psl [12, 1, 2])
        (\<lambda>base_x. case_stats ex_lib ex_store ex_adf [12, 1, 2] ''PSL'' base_x 0 ''cam'')
       = Inr (Fin 1, Fin 1, Fin 0)"
    by (simp add: ex_psl_seasonal_mean case_stats_def loc ex_retrieve_case ex_stats_reduced)
  from s same loop spec show ?thesis by (simp only: simp_thms)
qed

subsection \<open>Rescaling the weight vector\<close>

lemma coords_rescaled [simp]: "coords (rescaled ar k w) = coords w"
  by (simp add: rescaled_def)

lemma vals_rescaled [simp]: "vals (rescaled ar k w) e = ar_mul ar (Fin k) (vals w e)"
  by (simp add: rescaled_def)

lemma reduce_terms:
  "xr_reduce_ar ar a w True = scalar (ar_sum ar (weighted_terms ar fillna0 a w))"
  "xr_sum_of_weights_ar ar a w
     = scalar (let d = ar_sum ar (weighted_terms ar notnull a w) in if d \<noteq> Fin 0 then d else NaN)"
  by (simp_all add: xr_reduce_ar_def xr_sum_of_weights_ar_def xr_dot_ar_def weighted_terms_def)

lemma scaled_sum:
  "scales_sum ar k f a w \<Longrightarrow>
   ar_sum ar (weighted_terms ar f a (rescaled ar k w))
     = ar_mul ar (Fin k) (ar_sum ar (weighted_terms ar f a w))"
  by (simp add: scales_sum_def)

lemma scaled_reduction:
  assumes laws: "ieee_laws ar" and sc: "scales_reduction ar k num den w"
  shows "xr_binop (ar_div ar) (xr_reduce_ar ar num (rescaled ar k w) True)
       (xr_sum_of_weights_ar ar den (rescaled ar k w))
     = xr_binop (ar_div ar) (xr_reduce_ar ar num w True) (xr_sum_of_weights_ar ar den w)"
proof -
  let ?n = "ar_sum ar (weighted_terms ar fillna0 num w)"
  let ?d = "ar_sum ar (weighted_terms ar notnull den w)"
  have nan: "\<And>v. ar_div ar v NaN = NaN" using laws by (simp add: ieee_laws_def)
  from sc have sn: "scales_sum ar k fillna0 num w" and sd: "scales_sum ar k notnull den w"
    and zero: "(ar_mul ar (Fin k) ?d = Fin 0) = (?d = Fin 0)"
    and quot: "?d = Fin 0 \<or> ar_div ar (ar_mul ar (Fin k) ?n) (ar_mul ar (Fin k) ?d) = ar_div ar ?n ?d"
    by (simp_all add: scales_reduction_def Let_def)
  show ?thesis
  proof (cases "?d = Fin 0")
    case True
    with zero show ?thesis
      by (simp add: reduce_terms scaled_sum [OF sn] scaled_sum [OF sd] Let_def nan)
  next
    case False
    with zero quot show ?thesis
      by (simp add: reduce_terms scaled_sum [OF sn] scaled_sum [OF sd] Let_def)
  qed
qed

lemma rescaling_wgt:
  assumes laws: "ieee_laws ar"
    and w: "xr_weighted (DataArrayW w) = Inr w"
    and kw: "xr_weighted (DataArrayW (rescaled ar k w)) = Inr (rescaled ar k w)"
    and sc: "list_all (\<lambda>p. scales_reduction ar k (fst p) (snd p) w) (statistic_reductions ar x y w)"
  shows "taylor_stats_wgt_ar ar x y (DataArrayW (rescaled ar k w))
    = taylor_stats_wgt_ar ar x y (DataArrayW w)"
proof -
  let ?w' = "rescaled ar k w"
  let ?dx = "xr_binop (ar_sub ar) x (xr_weighted_mean_ar ar x w)"
  let ?dy = "xr_binop (ar_sub ar) y (xr_weighted_mean_ar ar y w)"
  note red = scaled_reduction [OF laws]
  from sc have sx: "scales_reduction ar k x x w" and sy: "scales_reduction ar k y y w"
    and sxy: "scales_reduction ar k (xr_binop (ar_mul ar) ?dx ?dy) (xr_binop (ar_mul ar) ?dx ?dy) w"
    and sxx: "scales_reduction ar k (xr_binop (ar_mul ar) ?dx ?dx) (xr_binop (ar_mul ar) ?dx ?dx) w"
    and syy: "scales_reduction ar k (xr_binop (ar_mul ar) ?dy ?dy) (xr_binop (ar_mul ar) ?dy ?dy) w"
    and sqx: "scales_reduction ar k (xr_map (\<lambda>v. ar_mul ar v v) ?dx) x w"
    and sqy: "scales_reduction ar k (xr_map (\<lambda>v. ar_mul ar v v) ?dy) y w"
    by (simp_all add: statistic_reductions_def Let_def)
  have mean: "\<And>a. scales_reduction ar k a a w \<Longrightarrow>
      xr_weighted_mean_ar ar a ?w' = xr_weighted_mean_ar ar a w"
    by (simp add: xr_weighted_mean_ar_def red)
  have mx: "xr_weighted_mean_ar ar x ?w' = xr_weighted_mean_ar ar x w" by (rule mean [OF sx])
  have my: "xr_weighted_mean_ar ar y ?w' = xr_weighted_mean_ar ar y w" by (rule mean [OF sy])
  have vx: "xr_weighted_var_ar ar x ?w' = xr_weighted_var_ar ar x w"
    by (simp add: xr_weighted_var_ar_def xr_sum_of_squares_ar_def Let_def mx red [OF sqx])
  have vy: "xr_weighted_var_ar ar y ?w' = xr_weighted_var_ar ar y w"
    by (simp add: xr_weighted_var_ar_def xr_sum_of_squares_ar_def Let_def my red [OF sqy])
  have wm: "\<And>a. scales_reduction ar k a a w \<Longrightarrow>
      weighted_mean_ar ar a (DataArrayW ?w') = weighted_mean_ar ar a (DataArrayW w)"
    by (simp add: weighted_mean_ar_def w kw mean)
  have corr: "weighted_correlation_ar ar x y (DataArrayW ?w')
      = weighted_correlation_ar ar x y (DataArrayW w)"
    by (simp add: weighted_correlation_ar_def weighted_mean_ar_def w kw mx my Let_def
        mean [OF sxy] mean [OF sxx] mean [OF syy])
  have std: "weighted_std_ar ar x (DataArrayW ?w') = weighted_std_ar ar x (DataArrayW w)"
      "weighted_std_ar ar y (DataArrayW ?w') = weighted_std_ar ar y (DataArrayW w)"
    by (simp_all add: weighted_std_ar_def w kw xr_weighted_std_ar_def vx vy)
  show ?thesis
    by (simp add: taylor_stats_wgt_ar_def corr std wm [OF sx] wm [OF sy])
qed

lemma scales_reduction_exact:
  assumes "0 < k"
  shows "scales_reduction exact k num den w"
proof -
  have nz: "\<And>d. (fmul (Fin k) d = Fin 0) = (d = Fin 0)"
    subgoal for d using assms by (cases d) (auto simp: signed_inf_def)
    done
  have sum: "\<And>ts. fsum (map (fmul (Fin k)) ts) = fmul (Fin k) (fsum ts)"
    using fsum_scale [OF assms, of "\<lambda>v. v"] by simp
  have terms: "\<And>f a. weighted_terms exact f a (rescaled exact k w)
      = map (fmul (Fin k)) (weighted_terms exact f a w)"
    using assms by (simp add: weighted_terms_def fmul_scale_right)
  show ?thesis
    using assms
    by (simp add: scales_reduction_def scales_sum_def Let_def terms sum nz fdiv_scale)
qed

lemma ex_range_stats:
  "taylor_stats_wgt_ar binary64_range ex_djf ex_djf (DataArrayW (cos_lat [-60, 60]))
     = Inr (Fin 1, Fin 1, Fin 0)"
proof -
  have sq: "sqrt (1 / 16) = 1 / (4 :: real)"
    using real_sqrt_abs2 [of "1 / 4"] by simp
  show ?thesis
    by (simp add: taylor_stats_wgt_ar_def weighted_correlation_ar_def weighted_mean_ar_def
        weighted_std_ar_def ex_weights_ok ex_range_mean ex_range_cov ex_range_var
        xr_weighted_std_ar_def py_truediv_ar_def Let_def)
      (simp add: fsub_def clip_simps sq)
qed

lemma ex_range_scaling:
  "list_all (\<lambda>p. scales_reduction binary64_range 2 (fst p) (snd p) (cos_lat [-60, 60]))
     (statistic_reductions binary64_range ex_djf ex_djf (cos_lat [-60, 60]))"
  by (simp add: statistic_reductions_def Let_def ex_range_mean)
    (simp add: scales_reduction_def scales_sum_def weighted_terms_def join_coords_def
      fillna0_def notnull_def fsub_def clip_simps signed_inf_def ex_djf_def cos_deg60 Let_def)



text \<open>In exact arithmetic every positive number is applied exactly.\<close>

lemma rescaling_exact_arithmetic:
  assumes "0 < k"
  shows "taylor_stats_wgt x y (DataArrayW (rescaled exact k w))
    = taylor_stats_wgt x y (DataArrayW w)"
proof (cases "list_ex (\<lambda>e. vals w e = NaN) (cells w)")
  case True
  then obtain e where e: "e \<in> set (cells w)" "vals w e = NaN"
    by (auto simp: list_ex_iff)
  then have "e \<in> set (cells (rescaled exact k w))" "vals (rescaled exact k w) e = NaN"
    by (simp_all add: cells_def fmul_NaN_right)
  then have "list_ex (\<lambda>e. vals (rescaled exact k w) e = NaN) (cells (rescaled exact k w))"
    unfolding list_ex_iff by blast
  with True show ?thesis
    by (simp add: taylor_stats_wgt_def weighted_correlation_def weighted_mean_def xr_weighted_def)
next
  case False
  then have w: "xr_weighted (DataArrayW w) = Inr w" by (simp add: xr_weighted_def)
  from False have "\<not> list_ex (\<lambda>e. vals (rescaled exact k w) e = NaN) (cells (rescaled exact k w))"
    using assms by (simp add: list_ex_iff cells_def fmul_pos_NaN_iff)
  then have kw: "xr_weighted (DataArrayW (rescaled exact k w)) = Inr (rescaled exact k w)"
    by (simp add: xr_weighted_def)
  have sc: "list_all (\<lambda>p. scales_reduction exact k (fst p) (snd p) w)
      (statistic_reductions exact x y w)"
    using assms by (simp add: list_all_iff scales_reduction_exact)
  from rescaling_wgt [OF ieee_laws_exact w kw sc] show ?thesis
    by (simp add: taylor_stats_wgt_exact)
qed

subsection \<open>A scalar that overflows\<close>

lemma ex_huge_weights_simps [simp]:
  "coords ex_huge_weights = [(''lat'', [-60, 60])]"
  "vals ex_huge_weights e = clip (fmul (Fin (2 ^ 1023)) (Fin (cos (e ''lat'' * pi / 180))))"
  by (simp_all add: ex_huge_weights_def)

lemma ex_range_weights: "xr_weighted (DataArrayW ex_huge_weights) = Inr ex_huge_weights"
  by (simp add: xr_weighted_def cells_def cos_deg60 clip_simps)

lemma ex_overflow_mean:
  "xr_weighted_mean_ar binary64_range ex_djf ex_huge_weights
     = scalar PInf"
  by (simp add: ex_djf_def range_defs cos_deg60)

lemma ex_overflow_cov:
  "xr_weighted_mean_ar binary64_range
     (xr_binop (\<lambda>a b. clip (fmul a b)) (xr_binop (\<lambda>a b. clip (fsub a b)) ex_djf (scalar PInf))
        (xr_binop (\<lambda>a b. clip (fsub a b)) ex_djf (scalar PInf)))
     ex_huge_weights
     = scalar PInf"
  by (simp add: ex_djf_def range_defs cos_deg60)

lemma ex_overflow_var:
  "xr_weighted_var_ar binary64_range ex_djf ex_huge_weights
     = scalar PInf"
  by (simp add: xr_weighted_var_ar_def xr_sum_of_squares_ar_def ex_overflow_mean Let_def)
    (simp add: ex_djf_def range_defs cos_deg60)


end
